theory Spec2Isabelle
  imports Complex_Main "HOL-Library.Sublist"
begin

section \<open>The Musical Ear Test: trial sequencing and scoring\<close>

text \<open>
  A shallow embedding of \<^verbatim>\<open>src/musical_ear.py\<close>: the catalogue loader
  \<^verbatim>\<open>load_audio_files\<close>, the response window of
  \<^verbatim>\<open>play_stimulus_and_display_prompt\<close>, and the sub-test runner
  \<^verbatim>\<open>musical_ear_test\<close> with its nested \<^verbatim>\<open>append_result_to_csv\<close>.
  The function \<^verbatim>\<open>musical_ear_test\<close> of \<^verbatim>\<open>src/musical_ear_psd.py\<close> is the same
  text, except that its CSV row has no leading experiment column.

  Python strings are \<open>string\<close>, Python floats (clock readings, durations) are \<open>real\<close>
  (rounding is not modelled), dictionaries are maps, and everything the program does to
  the outside (files, the PsychoPy window, the clock, the keyboard) is a field of the
  record \<open>world\<close> that the functions pass along.
\<close>

subsection \<open>Python values and built-ins\<close>

datatype pyval = PStr string | PInt int | PBool bool

datatype error = KeyError string | IndexError

type_synonym result = "string \<rightharpoonup> pyval"

text \<open>\<^verbatim>\<open>str(n)\<close> for a natural number, most significant digit first.\<close>

fun str_nat :: "nat \<Rightarrow> string" where
  "str_nat n = (if n < 10 then [''0123456789'' ! n]
                else str_nat (n div 10) @ [''0123456789'' ! (n mod 10)])"

declare str_nat.simps [simp del]

definition str_int :: "int \<Rightarrow> string" where
  "str_int n = (if n < 0 then CHR ''-'' # str_nat (nat (- n)) else str_nat (nat n))"

text \<open>What an f-string writes for a value: \<^verbatim>\<open>format(v, '')\<close>, which is \<^verbatim>\<open>str(v)\<close>.\<close>

fun py_str :: "pyval \<Rightarrow> string" where
  "py_str (PStr s) = s"
| "py_str (PInt n) = str_int n"
| "py_str (PBool b) = (if b then ''True'' else ''False'')"

text \<open>
  \<^verbatim>\<open>'{:02d}'.format(n)\<close>: sign-aware zero padding to a width of at least two
  characters; longer numbers are written in full.
\<close>

definition format_02d :: "int \<Rightarrow> string" where
  "format_02d n = (if n < 0 then CHR ''-'' # str_nat (nat (- n))
                   else if n < 10 then CHR ''0'' # str_nat (nat n)
                   else str_nat (nat n))"

text \<open>\<^verbatim>\<open>int(x)\<close> of a float truncates towards zero.\<close>

definition py_int :: "real \<Rightarrow> int" where
  "py_int x = (if 0 \<le> x then \<lfloor>x\<rfloor> else \<lceil>x\<rceil>)"

text \<open>\<^verbatim>\<open>divmod(a, b)\<close> on floats: the floored quotient and the remainder.\<close>

definition py_divmod :: "real \<Rightarrow> real \<Rightarrow> real \<times> real" where
  "py_divmod a b = (let q = of_int \<lfloor>a / b\<rfloor> in (q, a - q * b))"

text \<open>
  \<^verbatim>\<open>s.split(sep)\<close>: the pieces of \<open>s\<close> between the non-overlapping occurrences of
  \<open>sep\<close>, scanned from the left; \<open>acc\<close> is the piece being read. Python raises
  ValueError for an empty separator; the program only passes the literals
  \<^verbatim>\<open>'_'\<close> and \<^verbatim>\<open>'_test'\<close>.
\<close>

fun split_from :: "string \<Rightarrow> string \<Rightarrow> string \<Rightarrow> string list" where
  "split_from sep acc [] = [acc]"
| "split_from [] acc (c # cs) = [acc @ c # cs]"
| "split_from (d # ds) acc (c # cs) =
     (if prefix (d # ds) (c # cs) then acc # split_from (d # ds) [] (drop (length ds) cs)
      else split_from (d # ds) (acc @ [c]) cs)"

definition py_split :: "string \<Rightarrow> string \<Rightarrow> string list" where
  "py_split s sep = split_from sep [] s"

text \<open>\<^verbatim>\<open>needle in hay\<close> on strings.\<close>

fun str_contains :: "string \<Rightarrow> string \<Rightarrow> bool" where
  "str_contains needle [] = (needle = [])"
| "str_contains needle (c # cs) = (prefix needle (c # cs) \<or> str_contains needle cs)"

definition is_digit :: "char \<Rightarrow> bool" where
  "is_digit c = (c \<in> set ''0123456789'')"

text \<open>The value of a decimal digit: its position among the ten digits.\<close>

definition digit_value :: "char \<Rightarrow> nat" where
  "digit_value c = length (takeWhile (\<lambda>d. d \<noteq> c) ''0123456789'')"

text \<open>\<^verbatim>\<open>re.findall(r'\d+', s)[0]\<close>: the first maximal run of digits, IndexError when
  \<open>s\<close> has no digit.\<close>

definition first_digits :: "string \<Rightarrow> error + string" where
  "first_digits s =
     (case takeWhile is_digit (dropWhile (\<lambda>c. \<not> is_digit c) s) of
        [] \<Rightarrow> Inl IndexError
      | d # ds \<Rightarrow> Inr (d # ds))"

text \<open>\<^verbatim>\<open>int(s)\<close> for a string of decimal digits.\<close>

definition int_of_digits :: "string \<Rightarrow> int" where
  "int_of_digits s = foldl (\<lambda>a c. 10 * a + int (digit_value c)) 0 s"

text \<open>
  \<^verbatim>\<open>xs.insert(i, x)\<close>: a negative index counts from the end, and an index outside
  the list is clamped to its ends, so inserting past the end appends.
\<close>

definition py_insert :: "int \<Rightarrow> 'a \<Rightarrow> 'a list \<Rightarrow> 'a list" where
  "py_insert i x xs =
     (let n = int (length xs);
          j = (if i < 0 then max 0 (i + n) else min i n)
      in take (nat j) xs @ x # drop (nat j) xs)"

text \<open>\<^verbatim>\<open>os.path.join(a, b)\<close> with the POSIX separator.\<close>

definition os_path_join :: "string \<Rightarrow> string \<Rightarrow> string" where
  "os_path_join a b =
     (if prefix ''/'' b then b
      else if a = [] \<or> suffix ''/'' a then a @ b
      else a @ ''/'' @ b)"

subsection \<open>Catalogue loading\<close>

text \<open>
  \<^verbatim>\<open>int(re.findall(r'\d+', filename.split("_test")[1])[0])\<close>. The caller has
  checked \<^verbatim>\<open>"_test" in filename\<close>, so the split has a second piece.
\<close>

definition trial_number_of :: "string \<Rightarrow> error + int" where
  "trial_number_of filename =
     (case py_split filename ''_test'' of
        _ # piece # _ \<Rightarrow>
          (case first_digits piece of Inl e \<Rightarrow> Inl e | Inr ds \<Rightarrow> Inr (int_of_digits ds))
      | _ \<Rightarrow> Inl IndexError)"

text \<open>
  The loop of \<^verbatim>\<open>load_audio_files\<close> over \<^verbatim>\<open>os.listdir(folder_path)\<close>; the
  listing is an input, in whatever order the operating system gives it.
\<close>

fun load_loop ::
  "string \<Rightarrow> string \<Rightarrow> string list \<Rightarrow> string list \<Rightarrow> string list
     \<Rightarrow> error + string list \<times> string list" where
  "load_loop folder_path test_type [] example_files test_files =
     Inr (example_files, test_files)"
| "load_loop folder_path test_type (filename # listing) example_files test_files =
     (if prefix test_type filename then
        (let file_path = os_path_join folder_path filename in
         if str_contains ''_example'' filename then
           load_loop folder_path test_type listing (example_files @ [file_path]) test_files
         else if str_contains ''_test'' filename then
           (case trial_number_of filename of
              Inl e \<Rightarrow> Inl e
            | Inr trial_number \<Rightarrow>
                load_loop folder_path test_type listing example_files
                  (py_insert (trial_number - 1) file_path test_files))
         else load_loop folder_path test_type listing example_files test_files)
      else load_loop folder_path test_type listing example_files test_files)"

definition load_audio_files ::
  "string \<Rightarrow> string \<Rightarrow> string list \<Rightarrow> error + string list \<times> string list" where
  "load_audio_files base_audio_path test_type listing =
     load_loop base_audio_path test_type listing [] []"

subsection \<open>The outside world\<close>

text \<open>
  What one response window sees: \<open>env_elapsed n\<close> is the time in seconds since the
  countdown timer was created, at the \<open>n\<close>-th test of the loop condition, and
  \<open>env_keys n\<close> are the names of the keys pressed since the keyboard buffer was last
  read, at the \<open>n\<close>-th call of \<^verbatim>\<open>event.getKeys\<close> (the buffer was cleared just before
  the window opened).
\<close>

record trial_env =
  env_elapsed :: "nat \<Rightarrow> real"
  env_keys :: "nat \<Rightarrow> string list"

datatype event =
    Sound_play string
  | Trial_screen nat string string string "(nat \<times> nat) option"
  | Feedback string
  | Instructions string

text \<open>
  \<open>files\<close> maps a file name to its content, \<open>opened\<close> lists the open file handles,
  \<open>screen\<close> is what has been shown and played so far. \<open>now k\<close> is the \<open>k\<close>-th reading
  of \<^verbatim>\<open>time.time()\<close> and \<open>ticks\<close> counts the readings taken; \<open>utc_offset\<close> is the
  local time zone's offset in seconds. \<open>windows k\<close> is what the \<open>k\<close>-th response
  window sees and \<open>plays\<close> counts the windows opened.
\<close>

record world =
  files :: "string \<rightharpoonup> string"
  opened :: "string list"
  screen :: "event list"
  now :: "nat \<Rightarrow> real"
  ticks :: nat
  utc_offset :: int
  windows :: "nat \<Rightarrow> trial_env"
  plays :: nat

text \<open>
  The dictionary \<^verbatim>\<open>get_participant_info\<close> returns: it always has the keys
  \<^verbatim>\<open>'experiment'\<close>, \<^verbatim>\<open>'Subject_ID'\<close> and \<^verbatim>\<open>'cur_date'\<close>.
\<close>

record participant_info =
  info_experiment :: string
  info_Subject_ID :: string
  info_cur_date :: string

definition time_time :: "world \<Rightarrow> real \<times> world" where
  "time_time w = (now w (ticks w), w\<lparr>ticks := Suc (ticks w)\<rparr>)"

text \<open>
  \<^verbatim>\<open>datetime.datetime.fromtimestamp(t).strftime('%H:%M:%S')\<close>: the local time of
  day of the instant \<open>t\<close> (seconds since the epoch).
\<close>

definition strftime_HMS :: "int \<Rightarrow> real \<Rightarrow> string" where
  "strftime_HMS offset t =
     (let s = (\<lfloor>t\<rfloor> + offset) mod 86400
      in format_02d (s div 3600) @ '':'' @ format_02d (s mod 3600 div 60) @ '':''
           @ format_02d (s mod 60))"

text \<open>Lines 373 to 375 (and 421 to 423): the elapsed time as text.\<close>

definition format_duration :: "real \<Rightarrow> string" where
  "format_duration duration =
     (let (hours, remainder) = py_divmod duration 3600;
          (minutes, seconds) = py_divmod remainder 60
      in format_02d (py_int hours) @ '':'' @ format_02d (py_int minutes) @ '':''
           @ format_02d (py_int seconds))"

text \<open>
  \<^verbatim>\<open>display_instructions\<close> draws the text and waits for any key
  (\<^verbatim>\<open>event.waitKeys()\<close>); the participant is taken to press one.
\<close>

definition display_instructions :: "string \<Rightarrow> world \<Rightarrow> world" where
  "display_instructions instruction_text w =
     w\<lparr>screen := screen w @ [Instructions instruction_text]\<rparr>"

definition display_feedback :: "bool \<Rightarrow> world \<Rightarrow> world" where
  "display_feedback correct w =
     w\<lparr>screen := screen w @ [Feedback (if correct then ''Richtig!'' else ''Falsch!'')]\<rparr>"

subsection \<open>The response window\<close>

text \<open>\<^verbatim>\<open>event.getKeys(keyList=...)\<close> returns the buffered keys that are in the list.\<close>

definition getKeys :: "string list \<Rightarrow> string list \<Rightarrow> string list" where
  "getKeys keyList buffered = filter (\<lambda>key. key \<in> set keyList) buffered"

text \<open>
  The loop condition \<^verbatim>\<open>time_limit is None or timer.getTime() > 0\<close>, where a
  \<^verbatim>\<open>CountdownTimer(time_limit)\<close> reads \<open>time_limit\<close> minus the time elapsed.
\<close>

definition window_open :: "real option \<Rightarrow> real \<Rightarrow> bool" where
  "window_open time_limit elapsed_now =
     (case time_limit of None \<Rightarrow> True | Some limit \<Rightarrow> limit - elapsed_now > 0)"

text \<open>
  The \<^verbatim>\<open>while\<close> loop of lines 232 to 245, from its \<open>i\<close>-th round on. It returns the
  variable \<open>response\<close>: \<open>None\<close> when the window closed, the first accepted key otherwise.
  The loop need not end; \<open>None\<close> at the outer level is a run that never leaves it.
\<close>

partial_function (option) response_loop ::
  "real option \<Rightarrow> (nat \<Rightarrow> real) \<Rightarrow> (nat \<Rightarrow> string list) \<Rightarrow> nat \<Rightarrow> string option option" where
  "response_loop time_limit elapsed pressed i =
     (if window_open time_limit (elapsed i) then
        (case getKeys [''y'', ''n''] (pressed i) of
           [] \<Rightarrow> response_loop time_limit elapsed pressed (Suc i)
         | key # _ \<Rightarrow> Some (Some key))
      else Some None)"

text \<open>Lines 247 to 253: from the key to the label.\<close>

definition translate_response :: "string option \<Rightarrow> string" where
  "translate_response response =
     (if response = Some ''y'' then ''yes''
      else if response = Some ''n'' then ''no''
      else ''NA'')"

text \<open>Response collection alone: the loop from its first round, then the translation.\<close>

definition collect_response :: "real option \<Rightarrow> trial_env \<Rightarrow> string option" where
  "collect_response time_limit env =
     map_option translate_response
       (response_loop time_limit (env_elapsed env) (env_keys env) 0)"

definition play_stimulus_and_display_prompt ::
  "string \<Rightarrow> string \<Rightarrow> real option \<Rightarrow> nat \<Rightarrow> string \<Rightarrow> nat \<Rightarrow> string \<Rightarrow> world
     \<Rightarrow> (string \<times> world) option" where
  "play_stimulus_and_display_prompt stimulus prompt_text time_limit trial_number base_image_path
       total_trials test_type w =
     (let german_test_type = (if test_type = ''melody'' then ''Melodie'' else ''Rhythmus'');
          progress_bar =
            (if trial_number \<le> total_trials then Some (trial_number, total_trials) else None);
          w1 = w\<lparr>screen := screen w @
                  [Sound_play stimulus,
                   Trial_screen trial_number german_test_type prompt_text base_image_path
                     progress_bar],
                plays := Suc (plays w)\<rparr>
      in case collect_response time_limit (windows w (plays w)) of
           None \<Rightarrow> None
         | Some response \<Rightarrow> Some (response, w1))"

subsection \<open>Scoring\<close>

text \<open>
  Lines 366 and 414: \<^verbatim>\<open>'yes' if file.split('_')[-1].startswith('ident') else 'no'\<close>.
\<close>

definition correct_answer :: "string \<Rightarrow> string" where
  "correct_answer file = (if prefix ''ident'' (last (py_split file ''_'')) then ''yes'' else ''no'')"

text \<open>
  Lines 367 and 415:
  \<^verbatim>\<open>1 if response == correct_answer else (99 if response == "NA" else 0)\<close>.
\<close>

definition accuracy :: "string \<Rightarrow> string \<Rightarrow> int" where
  "accuracy response correct = (if response = correct then 1 else (if response = ''NA'' then 99 else 0))"

text \<open>The dictionary literal of lines 378 to 389 and 426 to 437.\<close>

definition trial_result ::
  "int \<Rightarrow> string \<Rightarrow> string \<Rightarrow> string \<Rightarrow> string \<Rightarrow> string \<Rightarrow> int \<Rightarrow> string \<Rightarrow> string \<Rightarrow> string
     \<Rightarrow> result" where
  "trial_result trial test_type phase stimulus response correct accuracy_code start_time_str
       end_time_str duration_str =
     [''trial'' \<mapsto> PInt trial,
      ''type'' \<mapsto> PStr test_type,
      ''phase'' \<mapsto> PStr phase,
      ''stimulus'' \<mapsto> PStr stimulus,
      ''response'' \<mapsto> PStr response,
      ''correct'' \<mapsto> PStr correct,
      ''accuracy'' \<mapsto> PInt accuracy_code,
      ''start_time'' \<mapsto> PStr start_time_str,
      ''end_time'' \<mapsto> PStr end_time_str,
      ''duration'' \<mapsto> PStr duration_str]"

subsection \<open>The result sink\<close>

text \<open>
  \<^verbatim>\<open>with open(name, 'a') as f: f.write(s)\<close> in three steps: opening for append
  creates a missing file and registers the handle, writing adds to the end, leaving the
  block closes the handle. A destination that cannot be opened is not modelled.
\<close>

definition open_append :: "string \<Rightarrow> world \<Rightarrow> world" where
  "open_append filename w =
     w\<lparr>files := (case files w filename of
                   None \<Rightarrow> (files w)(filename \<mapsto> [])
                 | Some _ \<Rightarrow> files w),
       opened := filename # opened w\<rparr>"

definition file_write :: "string \<Rightarrow> string \<Rightarrow> world \<Rightarrow> world" where
  "file_write filename written w =
     w\<lparr>files := (files w)(filename \<mapsto>
         (case files w filename of None \<Rightarrow> [] | Some content \<Rightarrow> content) @ written)\<rparr>"

definition file_close :: "string \<Rightarrow> world \<Rightarrow> world" where
  "file_close filename w = w\<lparr>opened := remove1 filename (opened w)\<rparr>"

text \<open>The values \<^verbatim>\<open>{result[key]}\<close> of an f-string, in order; a missing key raises.\<close>

fun format_fields :: "result \<Rightarrow> string list \<Rightarrow> error + string list" where
  "format_fields result [] = Inr []"
| "format_fields result (key # later) =
     (case result key of
        None \<Rightarrow> Inl (KeyError key)
      | Some v \<Rightarrow>
          (case format_fields result later of
             Inl e \<Rightarrow> Inl e
           | Inr vs \<Rightarrow> Inr (py_str v # vs)))"

fun join_commas :: "string list \<Rightarrow> string" where
  "join_commas [] = []"
| "join_commas [x] = x"
| "join_commas (x # y # ys) = x @ '','' @ join_commas (y # ys)"

definition result_columns :: "string list" where
  "result_columns = [''trial'', ''type'', ''phase'', ''stimulus'', ''response'', ''correct'',
     ''accuracy'', ''start_time'', ''end_time'', ''duration'']"

definition append_result_to_csv ::
  "result \<Rightarrow> string \<Rightarrow> string \<Rightarrow> participant_info \<Rightarrow> world \<Rightarrow> error + world" where
  "append_result_to_csv result practice_filename test_filename participant_info w =
     (case result ''phase'' of
        None \<Rightarrow> Inl (KeyError ''phase'')
      | Some phase \<Rightarrow>
          (let output_filename =
                 (if phase = PStr ''practice'' then practice_filename else test_filename);
               w1 = open_append output_filename w
           in case format_fields result result_columns of
                Inl e \<Rightarrow> Inl e
              | Inr columns \<Rightarrow>
                  Inr (file_close output_filename
                        (file_write output_filename
                          (join_commas
                             ([info_experiment participant_info, info_Subject_ID participant_info,
                               info_cur_date participant_info] @ columns) @ ''\<newline>'')
                          w1))))"

subsection \<open>One sub-test\<close>

text \<open>The local dictionary \<^verbatim>\<open>german_test_type\<close> of lines 314 to 317.\<close>

definition german_test_type :: "string \<rightharpoonup> string" where
  "german_test_type = [''melody'' \<mapsto> ''Melodien'', ''rhythm'' \<mapsto> ''Rhythmen'']"

text \<open>
  \<^verbatim>\<open>for i, x in enumerate(xs): body\<close> over a state: the rounds run in list order
  with \<open>i\<close> counting from the given start; a round that raises or never returns ends
  the loop.
\<close>

fun for_enumerate ::
  "(nat \<Rightarrow> 'a \<Rightarrow> 's \<Rightarrow> (error + 's) option) \<Rightarrow> nat \<Rightarrow> 'a list \<Rightarrow> 's \<Rightarrow> (error + 's) option" where
  "for_enumerate body i [] s = Some (Inr s)"
| "for_enumerate body i (x # xs) s =
     (case body i x s of
        None \<Rightarrow> None
      | Some (Inl e) \<Rightarrow> Some (Inl e)
      | Some (Inr s') \<Rightarrow> for_enumerate body (Suc i) xs s')"

text \<open>One round of the practice loop, lines 353 to 396.\<close>

definition practice_trial ::
  "string \<Rightarrow> string list \<Rightarrow> (string \<rightharpoonup> string) \<Rightarrow> string \<Rightarrow> string \<Rightarrow> string \<Rightarrow> participant_info
     \<Rightarrow> real \<Rightarrow> string \<Rightarrow> nat \<Rightarrow> string \<Rightarrow> result list \<times> world
     \<Rightarrow> (error + result list \<times> world) option" where
  "practice_trial test_type example_files instruction_texts practice_output_filename
       test_output_filename base_image_path participant_info start_time start_time_str
       i example_file =
     (\<lambda>(results, w).
        case german_test_type test_type of
          None \<Rightarrow> Some (Inl (KeyError test_type))
        | Some plural \<Rightarrow>
           (case play_stimulus_and_display_prompt example_file
                   (''Sind die '' @ plural @ '' identisch?'') None (i + 1)
                   (os_path_join base_image_path (test_type @ ''.png''))
                   (length example_files) test_type w of
              None \<Rightarrow> None
            | Some (response, w1) \<Rightarrow>
               (let (end_time, w2) = time_time w1;
                    end_time_str = strftime_HMS (utc_offset w2) end_time;
                    duration = end_time - start_time;
                    duration_str = format_duration duration;
                    result = trial_result (int i + 1) test_type ''practice'' example_file response
                               (correct_answer example_file)
                               (accuracy response (correct_answer example_file))
                               start_time_str end_time_str duration_str
                in case append_result_to_csv result practice_output_filename
                          test_output_filename participant_info w2 of
                     Inl e \<Rightarrow> Some (Inl e)
                   | Inr w3 \<Rightarrow>
                      (let w4 = display_feedback (response = correct_answer example_file) w3
                       in case instruction_texts
                                 (test_type @ ''_practice_'' @ correct_answer example_file) of
                            None \<Rightarrow>
                              Some (Inl (KeyError
                                (test_type @ ''_practice_'' @ correct_answer example_file)))
                          | Some instruction \<Rightarrow>
                              Some (Inr (results @ [result],
                                         display_instructions instruction w4))))))"

text \<open>One round of the test loop, lines 402 to 438: a window of two seconds.\<close>

definition test_trial ::
  "string \<Rightarrow> string list \<Rightarrow> string \<Rightarrow> string \<Rightarrow> string \<Rightarrow> participant_info
     \<Rightarrow> real \<Rightarrow> string \<Rightarrow> nat \<Rightarrow> string \<Rightarrow> result list \<times> world
     \<Rightarrow> (error + result list \<times> world) option" where
  "test_trial test_type test_files practice_output_filename test_output_filename
       base_image_path participant_info start_time start_time_str i test_file =
     (\<lambda>(results, w).
        case german_test_type test_type of
          None \<Rightarrow> Some (Inl (KeyError test_type))
        | Some plural \<Rightarrow>
           (case play_stimulus_and_display_prompt test_file
                   (''Sind die '' @ plural @ '' identisch?'') (Some 2) (i + 1)
                   (os_path_join base_image_path (test_type @ ''.png''))
                   (length test_files) test_type w of
              None \<Rightarrow> None
            | Some (response, w1) \<Rightarrow>
               (let (end_time, w2) = time_time w1;
                    end_time_str = strftime_HMS (utc_offset w2) end_time;
                    duration = end_time - start_time;
                    duration_str = format_duration duration;
                    result = trial_result (int i + 1) test_type ''test'' test_file response
                               (correct_answer test_file)
                               (accuracy response (correct_answer test_file))
                               start_time_str end_time_str duration_str
                in case append_result_to_csv result practice_output_filename
                          test_output_filename participant_info w2 of
                     Inl e \<Rightarrow> Some (Inl e)
                   | Inr w3 \<Rightarrow> Some (Inr (results @ [result], w3)))))"

text \<open>
  \<^verbatim>\<open>musical_ear_test\<close>, lines 294 to 440; the window \<^verbatim>\<open>win\<close> is part of the
  world. The result is \<open>None\<close> when a response window never closes, \<open>Some (Inl e)\<close>
  when a dictionary lookup raises, and \<open>Some (Inr (results, w'))\<close> when the function
  returns \<open>results\<close> and leaves the world \<open>w'\<close>.
\<close>

definition musical_ear_test ::
  "string \<Rightarrow> string list \<Rightarrow> string list \<Rightarrow> (string \<rightharpoonup> string) \<Rightarrow> string \<Rightarrow> string \<Rightarrow> string
     \<Rightarrow> participant_info \<Rightarrow> world \<Rightarrow> (error + result list \<times> world) option" where
  "musical_ear_test test_type example_files test_files instruction_texts
       practice_output_filename test_output_filename base_image_path participant_info w =
     (let (start_time, w1) = time_time w;
          start_time_str = strftime_HMS (utc_offset w1) start_time
      in case instruction_texts (test_type @ ''_part1'') of
           None \<Rightarrow> Some (Inl (KeyError (test_type @ ''_part1'')))
         | Some part1 \<Rightarrow>
            (case for_enumerate
                    (practice_trial test_type example_files instruction_texts
                       practice_output_filename test_output_filename base_image_path
                       participant_info start_time start_time_str)
                    0 example_files ([], display_instructions part1 w1) of
               None \<Rightarrow> None
             | Some (Inl e) \<Rightarrow> Some (Inl e)
             | Some (Inr (results, w2)) \<Rightarrow>
                (case instruction_texts (test_type @ ''_part2'') of
                   None \<Rightarrow> Some (Inl (KeyError (test_type @ ''_part2'')))
                 | Some part2 \<Rightarrow>
                     for_enumerate
                       (test_trial test_type test_files practice_output_filename
                          test_output_filename base_image_path participant_info start_time
                          start_time_str)
                       0 test_files (results, display_instructions part2 w2))))"

subsection \<open>Describing a run\<close>

text \<open>
  The notions the statements below are written in. None of them is part of the
  program; each is related to the program by a lemma before it is used.

  The content of a file, empty for a file that does not exist; the files after text was
  appended to one of them, and after a list of lines was, one by one.
\<close>

definition content_of :: "(string \<rightharpoonup> string) \<Rightarrow> string \<Rightarrow> string" where
  "content_of fs name = (case fs name of None \<Rightarrow> [] | Some content \<Rightarrow> content)"

definition appended :: "(string \<rightharpoonup> string) \<Rightarrow> string \<Rightarrow> string \<Rightarrow> (string \<rightharpoonup> string)" where
  "appended fs name written = fs(name \<mapsto> content_of fs name @ written)"

definition appended_lines ::
  "(string \<rightharpoonup> string) \<Rightarrow> string \<Rightarrow> string list \<Rightarrow> (string \<rightharpoonup> string)" where
  "appended_lines fs name written = foldl (\<lambda>fs' line. appended fs' name line) fs written"

text \<open>
  The line a result is serialized to, for a result that has all its columns.
\<close>

definition csv_line :: "participant_info \<Rightarrow> result \<Rightarrow> string" where
  "csv_line p r =
     (case format_fields r result_columns of
        Inl e \<Rightarrow> []
      | Inr columns \<Rightarrow>
          join_commas ([info_experiment p, info_Subject_ID p, info_cur_date p] @ columns)
            @ ''\<newline>'')"

text \<open>
  What the world is after \<open>k\<close> trials that showed \<open>events\<close> and left the files
  \<open>fs\<close>: a trial takes one clock reading and opens one response window.
\<close>

definition run_world :: "world \<Rightarrow> nat \<Rightarrow> event list \<Rightarrow> (string \<rightharpoonup> string) \<Rightarrow> world" where
  "run_world w k events fs =
     w\<lparr>files := fs, screen := screen w @ events, ticks := ticks w + k, plays := plays w + k\<rparr>"

text \<open>
  What a trial plays and shows before its response window, and what a practice trial
  shows in all.
\<close>

definition trial_events :: "string \<Rightarrow> string \<Rightarrow> nat \<Rightarrow> nat \<Rightarrow> string \<Rightarrow> event list" where
  "trial_events test_type base_image_path total_trials i file =
     [Sound_play file,
      Trial_screen (i + 1) (if test_type = ''melody'' then ''Melodie'' else ''Rhythmus'')
        (''Sind die '' @ the (german_test_type test_type) @ '' identisch?'')
        (os_path_join base_image_path (test_type @ ''.png''))
        (if i + 1 \<le> total_trials then Some (i + 1, total_trials) else None)]"

definition practice_events ::
  "world \<Rightarrow> string \<Rightarrow> (string \<rightharpoonup> string) \<Rightarrow> string \<Rightarrow> string list \<Rightarrow> nat \<Rightarrow> event list" where
  "practice_events w test_type instruction_texts base_image_path example_files j =
     trial_events test_type base_image_path (length example_files) j (example_files ! j) @
     [Feedback (if the (collect_response None (windows w (plays w + j)))
                     = correct_answer (example_files ! j)
                then ''Richtig!'' else ''Falsch!''),
      Instructions (the (instruction_texts
         (test_type @ ''_practice_'' @ correct_answer (example_files ! j))))]"

text \<open>
  The result of the \<open>j\<close>-th round of a loop that starts in the world \<open>w\<close>, and the
  result of the \<open>j\<close>-th trial of a phase of a sub-test that starts in the world \<open>w\<close>,
  when \<open>before\<close> trials precede the phase.
\<close>

definition loop_result ::
  "world \<Rightarrow> string \<Rightarrow> string \<Rightarrow> real option \<Rightarrow> real \<Rightarrow> string \<Rightarrow> string list \<Rightarrow> nat \<Rightarrow> result" where
  "loop_result w test_type phase time_limit start_time start_time_str xs j =
     (let response = the (collect_response time_limit (windows w (plays w + j)));
          end_time = now w (ticks w + j)
      in trial_result (int j + 1) test_type phase (xs ! j) response (correct_answer (xs ! j))
           (accuracy response (correct_answer (xs ! j))) start_time_str
           (strftime_HMS (utc_offset w) end_time) (format_duration (end_time - start_time)))"

definition outcome ::
  "world \<Rightarrow> string \<Rightarrow> string \<Rightarrow> real option \<Rightarrow> nat \<Rightarrow> string list \<Rightarrow> nat \<Rightarrow> result" where
  "outcome w test_type phase time_limit before xs j =
     (let response = the (collect_response time_limit (windows w (plays w + before + j)));
          start_time = now w (ticks w);
          end_time = now w (ticks w + 1 + before + j)
      in trial_result (int j + 1) test_type phase (xs ! j) response (correct_answer (xs ! j))
           (accuracy response (correct_answer (xs ! j)))
           (strftime_HMS (utc_offset w) start_time)
           (strftime_HMS (utc_offset w) end_time) (format_duration (end_time - start_time)))"

text \<open>
  The rounds \<open>i\<close> to \<open>k - 1\<close> of a response window are quiet when the window is open
  and no \<open>y\<close> or \<open>n\<close> key is read at each of them; the window stops at round \<open>k\<close> with
  the response \<open>r\<close>; a window closes when some round finds the countdown at zero or
  reads a \<open>y\<close> or \<open>n\<close> key.
\<close>

definition quiet :: "real option \<Rightarrow> (nat \<Rightarrow> real) \<Rightarrow> (nat \<Rightarrow> string list) \<Rightarrow> nat \<Rightarrow> nat \<Rightarrow> bool" where
  "quiet limit el pr i k \<longleftrightarrow>
     (\<forall>j. i \<le> j \<and> j < k \<longrightarrow> window_open limit (el j) \<and> getKeys [''y'', ''n''] (pr j) = [])"

definition stopped :: "real option \<Rightarrow> (nat \<Rightarrow> real) \<Rightarrow> (nat \<Rightarrow> string list) \<Rightarrow> nat \<Rightarrow> string option \<Rightarrow> bool" where
  "stopped limit el pr k r \<longleftrightarrow>
     (if window_open limit (el k)
      then (case getKeys [''y'', ''n''] (pr k) of [] \<Rightarrow> False | key # _ \<Rightarrow> r = Some key)
      else r = None)"

definition closes :: "real option \<Rightarrow> trial_env \<Rightarrow> bool" where
  "closes time_limit env \<longleftrightarrow>
     (\<exists>k. \<not> window_open time_limit (env_elapsed env k)
          \<or> getKeys [''y'', ''n''] (env_keys env k) \<noteq> [])"

text \<open>
  What a sub-test needs to run to its end: the two instruction texts that open its
  phases; a test type that is one of the two, as soon as there is a trial; for every
  practice trial the instruction text of its ground truth and a window that closes (the
  participant answers); for every test trial a window that closes.
\<close>

definition run_ready ::
  "string \<Rightarrow> string list \<Rightarrow> string list \<Rightarrow> (string \<rightharpoonup> string) \<Rightarrow> world \<Rightarrow> bool" where
  "run_ready test_type example_files test_files instruction_texts w \<longleftrightarrow>
     instruction_texts (test_type @ ''_part1'') \<noteq> None
     \<and> instruction_texts (test_type @ ''_part2'') \<noteq> None
     \<and> (example_files \<noteq> [] \<or> test_files \<noteq> []
          \<longrightarrow> test_type = ''melody'' \<or> test_type = ''rhythm'')
     \<and> (\<forall>j<length example_files.
           instruction_texts (test_type @ ''_practice_'' @ correct_answer (example_files ! j))
             \<noteq> None
           \<and> closes None (windows w (plays w + j)))
     \<and> (\<forall>j<length test_files.
           closes (Some 2) (windows w (plays w + length example_files + j)))"

text \<open>
  The list a run returns (empty for a run that does not return), and the instruction
  texts among the events of a screen.
\<close>

definition results_of :: "(error + result list \<times> world) option \<Rightarrow> result list" where
  "results_of run = (case run of Some (Inr (results, w')) \<Rightarrow> results | _ \<Rightarrow> [])"

definition shown_instructions :: "event list \<Rightarrow> string list" where
  "shown_instructions events =
     concat (map (\<lambda>e. case e of Instructions shown \<Rightarrow> [shown] | _ \<Rightarrow> []) events)"

subsection \<open>An example run\<close>

text \<open>
  A rhythm sub-test with two practice pairs and two test pairs. Every window is polled
  twice a second and sees keys at its second round only: the participant answers yes to
  both practice pairs (wrongly to the second), no to the first test pair, and presses a
  key that does not count at the second. The clock reads 10:00:00.5 at the start and is
  read every 462 seconds.
\<close>

definition demo_windows :: "nat \<Rightarrow> trial_env" where
  "demo_windows k =
     \<lparr>env_elapsed = (\<lambda>n. real n / 2),
      env_keys = (\<lambda>n. if n = 1
                       then (if k mod 4 = 0 then [''y''] else if k mod 4 = 1 then [''y'']
                             else if k mod 4 = 2 then [''space'', ''n'', ''y''] else [''q''])
                       else [])\<rparr>"

definition demo_texts :: "string \<rightharpoonup> string" where
  "demo_texts =
     [''melody_part1'' \<mapsto> ''M1'', ''melody_practice_yes'' \<mapsto> ''MY'',
      ''melody_practice_no'' \<mapsto> ''MN'', ''melody_part2'' \<mapsto> ''M2'',
      ''rhythm_part1'' \<mapsto> ''R1'', ''rhythm_practice_yes'' \<mapsto> ''RY'',
      ''rhythm_practice_no'' \<mapsto> ''RN'', ''rhythm_part2'' \<mapsto> ''R2'']"

definition demo_examples :: "string list" where
  "demo_examples = [''audio/rhythm_example1_identical.wav'', ''audio/rhythm_example2_different.wav'']"

definition demo_tests :: "string list" where
  "demo_tests = [''audio/rhythm_test01_different.wav'', ''audio/rhythm_test07_identical.wav'']"

definition demo_info :: participant_info where
  "demo_info = \<lparr>info_experiment = ''musical_ear_test'', info_Subject_ID = ''S01'',
                 info_cur_date = ''2023-05-06 10:00''\<rparr>"

definition demo_world :: world where
  "demo_world =
     \<lparr>files = [''practice.csv'' \<mapsto> ''header\<newline>'', ''test.csv'' \<mapsto> ''header\<newline>''],
      opened = [], screen = [],
      now = (\<lambda>k. 36000.5 + 462 * real k), ticks = 0, utc_offset = 0,
      windows = demo_windows, plays = 0\<rparr>"

definition demo_run :: "(error + result list \<times> world) option" where
  "demo_run = musical_ear_test ''rhythm'' demo_examples demo_tests demo_texts
                ''practice.csv'' ''test.csv'' ''pics'' demo_info demo_world"

section \<open>Properties\<close>

subsection \<open>The last piece of a split\<close>

lemma split_from_nonempty: "split_from sep acc s \<noteq> []"
  by (induction sep acc s rule: split_from.induct) auto

lemma last_split_from_char:
  "d \<notin> set acc \<Longrightarrow>
     last (split_from [d] acc s) = rev (takeWhile (\<lambda>c. c \<noteq> d) (rev (acc @ s)))"
proof (induction s arbitrary: acc)
  case Nil
  then have "takeWhile (\<lambda>c. c \<noteq> d) (rev acc) = rev acc"
    by (auto simp: takeWhile_eq_all_conv)
  then show ?case by (simp del: takeWhile_eq_all_conv)
next
  case (Cons c cs)
  show ?case
  proof (cases "c = d")
    case True
    have "last (split_from [d] acc (c # cs)) = last (split_from [d] [] cs)"
      using True by (simp add: split_from_nonempty)
    also have "\<dots> = rev (takeWhile (\<lambda>c. c \<noteq> d) (rev cs))"
      using Cons.IH[of "[]"] by simp
    also have "\<dots> = rev (takeWhile (\<lambda>c. c \<noteq> d) (rev (acc @ c # cs)))"
      using True by (simp add: takeWhile_append takeWhile_eq_all_conv[THEN iffD2])
    finally show ?thesis .
  next
    case False
    with Cons.prems have "d \<notin> set (acc @ [c])" by auto
    from Cons.IH[OF this] False show ?thesis by simp
  qed
qed

lemma last_segment:
  "last (py_split fname ''_'') = rev (takeWhile (\<lambda>c. c \<noteq> CHR ''_'') (rev fname))"
  using last_split_from_char[of "CHR ''_''" "[]" fname] by (simp add: py_split_def)

lemma last_segment_unique:
  assumes "fname = before @ seg" "CHR ''_'' \<notin> set seg" "before = [] \<or> last before = CHR ''_''"
  shows "rev (takeWhile (\<lambda>c. c \<noteq> CHR ''_'') (rev fname)) = seg"
proof -
  have "takeWhile (\<lambda>c. c \<noteq> CHR ''_'') (rev before) = []"
  proof (cases before rule: rev_cases)
    case Nil
    then show ?thesis by simp
  next
    case (snoc ys y)
    with assms(3) show ?thesis by simp
  qed
  then show ?thesis
    using assms(1,2) by (simp add: takeWhile_append)
qed

lemma last_segment_decomposes:
  "\<exists>before. fname = before @ rev (takeWhile (\<lambda>c. c \<noteq> CHR ''_'') (rev fname))
      \<and> (before = [] \<or> last before = CHR ''_'')"
proof -
  let ?P = "\<lambda>c. c \<noteq> CHR ''_''"
  let ?before = "rev (dropWhile ?P (rev fname))"
  have "fname = rev (takeWhile ?P (rev fname) @ dropWhile ?P (rev fname))"
    by simp
  then have "fname = ?before @ rev (takeWhile ?P (rev fname))"
    by (simp only: rev_append)
  moreover have "?before = [] \<or> last ?before = CHR ''_''"
  proof (cases "dropWhile ?P (rev fname)")
    case Nil
    then show ?thesis by simp
  next
    case (Cons x xs)
    have "\<not> ?P (hd (dropWhile ?P (rev fname)))"
      by (rule hd_dropWhile) (simp add: Cons)
    with Cons show ?thesis by simp
  qed
  ultimately show ?thesis by blast
qed

lemma no_underscore_in_segment:
  "CHR ''_'' \<notin> set (rev (takeWhile (\<lambda>c. c \<noteq> CHR ''_'') (rev fname)))"
proof
  assume "CHR ''_'' \<in> set (rev (takeWhile (\<lambda>c. c \<noteq> CHR ''_'') (rev fname)))"
  then have "CHR ''_'' \<in> set (takeWhile (\<lambda>c. c \<noteq> CHR ''_'') (rev fname))" by simp
  from set_takeWhileD[OF this] show False by simp
qed

lemma correct_answer_path:
  assumes "CHR ''_'' \<in> set filename"
  shows "correct_answer (os_path_join folder filename) = correct_answer filename"
proof -
  have "os_path_join folder filename = [] @ filename
      \<or> os_path_join folder filename = folder @ filename
      \<or> os_path_join folder filename = (folder @ ''/'') @ filename"
    by (simp add: os_path_join_def)
  then have "\<exists>dir. os_path_join folder filename = dir @ filename" by blast
  then obtain dir where dir: "os_path_join folder filename = dir @ filename" by blast
  have "CHR ''_'' \<in> set (rev filename)" using assms by simp
  then have "takeWhile (\<lambda>c. c \<noteq> CHR ''_'') (rev filename @ rev dir)
           = takeWhile (\<lambda>c. c \<noteq> CHR ''_'') (rev filename)"
    by (intro takeWhile_append1) auto
  then show ?thesis by (simp add: correct_answer_def last_segment dir)
qed

lemma correct_answer_marker:
  "correct_answer fname =
     (if (\<exists>before after. fname = before @ ''ident'' @ after \<and> CHR ''_'' \<notin> set after
            \<and> (before = [] \<or> last before = CHR ''_''))
      then ''yes'' else ''no'')"
proof -
  let ?seg = "rev (takeWhile (\<lambda>c. c \<noteq> CHR ''_'') (rev fname))"
  have "prefix ''ident'' ?seg \<longleftrightarrow>
        (\<exists>before after. fname = before @ ''ident'' @ after \<and> CHR ''_'' \<notin> set after
            \<and> (before = [] \<or> last before = CHR ''_''))" (is "?L \<longleftrightarrow> ?R")
  proof
    assume ?L
    then obtain after where after: "?seg = ''ident'' @ after" by (auto simp: prefix_def)
    from last_segment_decomposes[of fname] obtain before
      where "fname = before @ ?seg" "before = [] \<or> last before = CHR ''_''" by blast
    moreover have "CHR ''_'' \<notin> set after"
      using no_underscore_in_segment[of fname] unfolding after by simp
    ultimately show ?R unfolding after by blast
  next
    assume ?R
    then obtain before after where *: "fname = before @ ''ident'' @ after" "CHR ''_'' \<notin> set after"
      "before = [] \<or> last before = CHR ''_''" by blast
    have "?seg = ''ident'' @ after"
      by (rule last_segment_unique[OF *(1) _ *(3)]) (use *(2) in simp)
    then show ?L by (simp add: prefix_def)
  qed
  then show ?thesis by (simp add: correct_answer_def last_segment)
qed

subsection \<open>The response loop\<close>

lemma response_loop_key:
  assumes "\<And>j. i \<le> j \<Longrightarrow> j < k \<Longrightarrow> window_open limit (el j) \<and> getKeys [''y'', ''n''] (pr j) = []"
      and "i \<le> k" "window_open limit (el k)" "getKeys [''y'', ''n''] (pr k) = key # rest"
  shows "response_loop limit el pr i = Some (Some key)"
  using assms
proof (induction "k - i" arbitrary: i)
  case 0
  then have "i = k" by simp
  with 0 show ?case by (subst response_loop.simps) simp
next
  case (Suc d)
  then have lt: "i < k" by simp
  from Suc.prems(1)[of i] lt have here: "window_open limit (el i)" "getKeys [''y'', ''n''] (pr i) = []"
    by auto
  have "response_loop limit el pr (Suc i) = Some (Some key)"
    using Suc.hyps(2) lt Suc.prems by (intro Suc.hyps(1)) auto
  with here show ?case by (subst response_loop.simps) simp
qed

lemma response_loop_timeout:
  assumes "\<And>j. i \<le> j \<Longrightarrow> j < k \<Longrightarrow> window_open limit (el j) \<and> getKeys [''y'', ''n''] (pr j) = []"
      and "i \<le> k" "\<not> window_open limit (el k)"
  shows "response_loop limit el pr i = Some None"
  using assms
proof (induction "k - i" arbitrary: i)
  case 0
  then have "i = k" by simp
  with 0 show ?case by (subst response_loop.simps) simp
next
  case (Suc d)
  then have lt: "i < k" by simp
  from Suc.prems(1)[of i] lt have here: "window_open limit (el i)" "getKeys [''y'', ''n''] (pr i) = []"
    by auto
  have "response_loop limit el pr (Suc i) = Some None"
    using Suc.hyps(2) lt Suc.prems by (intro Suc.hyps(1)) auto
  with here show ?case by (subst response_loop.simps) simp
qed

lemma quiet_refl: "quiet limit el pr i i"
  by (auto simp add: quiet_def)

lemma quiet_step:
  assumes "window_open limit (el i)" "getKeys [''y'', ''n''] (pr i) = []" "quiet limit el pr (Suc i) k"
  shows "quiet limit el pr i k"
  unfolding quiet_def
proof (intro allI impI)
  fix j assume j: "i \<le> j \<and> j < k"
  show "window_open limit (el j) \<and> getKeys [''y'', ''n''] (pr j) = []"
  proof (cases "j = i")
    case True
    with assms(1,2) show ?thesis by simp
  next
    case False
    with j have "Suc i \<le> j \<and> j < k" by simp
    with assms(3) show ?thesis unfolding quiet_def by blast
  qed
qed

lemma response_loop_stops:
  assumes "response_loop limit el pr i = Some r"
  shows "\<exists>k. i \<le> k \<and> quiet limit el pr i k \<and> stopped limit el pr k r"
proof (rule response_loop.raw_induct
    [where P = "\<lambda>limit el pr i r. \<exists>k. i \<le> k \<and> quiet limit el pr i k \<and> stopped limit el pr k r",
     OF _ assms])
  fix loop :: "real option \<Rightarrow> (nat \<Rightarrow> real) \<Rightarrow> (nat \<Rightarrow> string list) \<Rightarrow> nat \<Rightarrow> string option option"
  fix limit el pr i r
  assume IH: "\<And>limit el pr i r. loop limit el pr i = Some r \<Longrightarrow>
                \<exists>k. i \<le> k \<and> quiet limit el pr i k \<and> stopped limit el pr k r"
    and eq: "(if window_open limit (el i)
      then case getKeys [''y'', ''n''] (pr i) of
           [] \<Rightarrow> loop limit el pr (Suc i)
           | key # x \<Rightarrow> Some (Some key)
      else Some None) = Some r"
  show "\<exists>k. i \<le> k \<and> quiet limit el pr i k \<and> stopped limit el pr k r"
  proof (cases "window_open limit (el i)")
    case False
    with eq have "r = None" by simp
    with False have "stopped limit el pr i r" by (simp add: stopped_def)
    with quiet_refl[of limit el pr i] show ?thesis by blast
  next
    case True
    show ?thesis
    proof (cases "getKeys [''y'', ''n''] (pr i)")
      case (Cons key rest)
      with True eq have "r = Some key" by simp
      with True Cons have "stopped limit el pr i r" by (simp add: stopped_def)
      with quiet_refl[of limit el pr i] show ?thesis by blast
    next
      case Nil
      with True eq have "loop limit el pr (Suc i) = Some r" by simp
      from IH[OF this] obtain k where k: "Suc i \<le> k" "quiet limit el pr (Suc i) k"
        "stopped limit el pr k r" by blast
      from k(1) have "i \<le> k" by simp
      with quiet_step[OF True Nil k(2)] k(3) show ?thesis by blast
    qed
  qed
qed

subsection \<open>Trials and loops\<close>

lemma format_fields_trial_result:
  "format_fields (trial_result trial test_type phase stimulus response correct acc st en du) result_columns
     = Inr [str_int trial, test_type, phase, stimulus, response, correct, str_int acc, st, en, du]"
  by (simp add: trial_result_def result_columns_def)

lemma trial_result_phase:
  "trial_result trial test_type phase stimulus response correct acc st en du ''phase'' = Some (PStr phase)"
  by (simp add: trial_result_def)

lemma append_result_to_csv_trial_result:
  assumes "r = trial_result trial test_type phase stimulus response correct acc st en du"
  shows "append_result_to_csv r pf tf p w
     = Inr (w\<lparr>files := appended (files w) (if phase = ''practice'' then pf else tf) (csv_line p r)\<rparr>)"
  unfolding assms
  by (cases "files w (if phase = ''practice'' then pf else tf)")
     (simp_all add: append_result_to_csv_def trial_result_phase format_fields_trial_result
       csv_line_def appended_def content_of_def open_append_def file_write_def file_close_def
       Let_def)

lemma practice_trial_returns:
  assumes g: "german_test_type test_type = Some plural"
      and c: "collect_response None (windows w (plays w)) = Some response"
      and t: "instruction_texts (test_type @ ''_practice_'' @ correct_answer file) = Some instruction"
      and r: "r = trial_result (int i + 1) test_type ''practice'' file response (correct_answer file)
                (accuracy response (correct_answer file)) start_str
                (strftime_HMS (utc_offset w) (now w (ticks w)))
                (format_duration (now w (ticks w) - start))"
  shows "practice_trial test_type ex instruction_texts pf tf img p start start_str i file (results, w) =
     Some (Inr (results @ [r],
       run_world w 1
         (trial_events test_type img (length ex) i file @
          [Feedback (if response = correct_answer file then ''Richtig!'' else ''Falsch!''),
           Instructions instruction])
         (appended (files w) pf (csv_line p r))))"
  unfolding practice_trial_def r
  by (simp add: g c t[simplified] play_stimulus_and_display_prompt_def time_time_def Let_def
      append_result_to_csv_trial_result[OF refl] display_feedback_def display_instructions_def
      run_world_def trial_events_def)

lemma test_trial_returns:
  assumes g: "german_test_type test_type = Some plural"
      and c: "collect_response (Some 2) (windows w (plays w)) = Some response"
      and r: "r = trial_result (int i + 1) test_type ''test'' file response (correct_answer file)
                (accuracy response (correct_answer file)) start_str
                (strftime_HMS (utc_offset w) (now w (ticks w)))
                (format_duration (now w (ticks w) - start))"
  shows "test_trial test_type ts pf tf img p start start_str i file (results, w) =
     Some (Inr (results @ [r],
       run_world w 1 (trial_events test_type img (length ts) i file)
         (appended (files w) tf (csv_line p r))))"
  unfolding test_trial_def r
  by (simp add: g c play_stimulus_and_display_prompt_def time_time_def Let_def
      append_result_to_csv_trial_result[OF refl]
      run_world_def trial_events_def)

lemma for_enumerate_returns:
  assumes "\<And>j s. j < length xs \<Longrightarrow> I j s \<Longrightarrow>
             \<exists>s'. body (i + j) (xs ! j) s = Some (Inr s') \<and> I (Suc j) s'"
      and "I 0 s"
  shows "\<exists>s'. for_enumerate body i xs s = Some (Inr s') \<and> I (length xs) s'"
  using assms
proof (induction xs arbitrary: i s I)
  case Nil
  then show ?case by simp
next
  case (Cons x xs)
  from Cons.prems(1)[of 0 s] Cons.prems(2)
  obtain s1 where s1: "body i x s = Some (Inr s1)" "I (Suc 0) s1" by auto
  have "\<exists>s'. for_enumerate body (Suc i) xs s1 = Some (Inr s') \<and> (\<lambda>j. I (Suc j)) (length xs) s'"
  proof (rule Cons.IH)
    fix j s
    assume "j < length xs" "I (Suc j) s"
    with Cons.prems(1)[of "Suc j" s]
    show "\<exists>s'. body (Suc i + j) (xs ! j) s = Some (Inr s') \<and> I (Suc (Suc j)) s'" by simp
  next
    show "I (Suc 0) s1" using s1 by simp
  qed
  then show ?case using s1 by simp
qed

lemma for_enumerate_returned:
  assumes "for_enumerate body i xs s = Some (Inr s')"
    and "I 0 s"
    and "\<And>j s t. j < length xs \<Longrightarrow> I j s \<Longrightarrow> body (i + j) (xs ! j) s = Some (Inr t) \<Longrightarrow> I (Suc j) t"
  shows "I (length xs) s'"
  using assms
proof (induction xs arbitrary: i s I)
  case Nil
  then show ?case by simp
next
  case (Cons x xs)
  from Cons.prems(1) obtain s1 where s1: "body i x s = Some (Inr s1)"
    and rest: "for_enumerate body (Suc i) xs s1 = Some (Inr s')"
    by (auto split: option.splits sum.splits)
  have "I (Suc 0) s1" using Cons.prems(3)[of 0 s s1] Cons.prems(2) s1 by simp
  have "(\<lambda>j. I (Suc j)) (length xs) s'"
  proof (rule Cons.IH[OF rest])
    show "I (Suc 0) s1" by fact
  next
    fix j s t
    assume "j < length xs" "I (Suc j) s" "body (Suc i + j) (xs ! j) s = Some (Inr t)"
    with Cons.prems(3)[of "Suc j" s t] show "I (Suc (Suc j)) t" by simp
  qed
  then show ?case by simp
qed

lemma practice_trial_returned:
  assumes "practice_trial test_type ex instruction_texts pf tf img p start start_str i name (results, w)
             = Some (Inr t)"
  shows "german_test_type test_type \<noteq> None
       \<and> collect_response None (windows w (plays w)) \<noteq> None
       \<and> instruction_texts (test_type @ ''_practice_'' @ correct_answer name) \<noteq> None"
  using assms
  by (auto simp: practice_trial_def play_stimulus_and_display_prompt_def Let_def time_time_def
      split: option.splits sum.splits prod.splits)

lemma test_trial_returned:
  assumes "test_trial test_type ts pf tf img p start start_str i name (results, w) = Some (Inr t)"
  shows "german_test_type test_type \<noteq> None
       \<and> collect_response (Some 2) (windows w (plays w)) \<noteq> None"
  using assms
  by (auto simp: test_trial_def play_stimulus_and_display_prompt_def Let_def time_time_def
      split: option.splits sum.splits prod.splits)

lemma run_world_proj [simp]:
  "windows (run_world w k ev fs) = windows w"
  "plays (run_world w k ev fs) = plays w + k"
  "ticks (run_world w k ev fs) = ticks w + k"
  "now (run_world w k ev fs) = now w"
  "utc_offset (run_world w k ev fs) = utc_offset w"
  "files (run_world w k ev fs) = fs"
  "screen (run_world w k ev fs) = screen w @ ev"
  "opened (run_world w k ev fs) = opened w"
  by (simp_all add: run_world_def)

lemma run_world_run_world:
  "run_world (run_world w k ev fs) k' ev' fs' = run_world w (k + k') (ev @ ev') fs'"
  by (simp add: run_world_def add.assoc)

lemma run_world_0: "run_world w 0 [] (files w) = w"
  by (simp add: run_world_def)

lemma practice_step:
  assumes g: "german_test_type test_type = Some plural"
    and resp: "collect_response None (windows w (plays w + j)) = Some response"
    and instr: "instruction_texts (test_type @ ''_practice_'' @ correct_answer (ex ! j))
                  = Some instruction"
  shows "practice_trial test_type ex instruction_texts pf tf img p start start_str (0 + j) (ex ! j)
           (rs @ map (loop_result w test_type ''practice'' None start start_str ex) [0..<j],
            run_world w j
              (concat (map (practice_events w test_type instruction_texts img ex) [0..<j]))
              (appended_lines (files w) pf
                 (map (\<lambda>j. csv_line p (loop_result w test_type ''practice'' None start start_str ex j))
                    [0..<j])))
         = Some (Inr (rs @ map (loop_result w test_type ''practice'' None start start_str ex) [0..<Suc j],
            run_world w (Suc j)
              (concat (map (practice_events w test_type instruction_texts img ex) [0..<Suc j]))
              (appended_lines (files w) pf
                 (map (\<lambda>j. csv_line p (loop_result w test_type ''practice'' None start start_str ex j))
                    [0..<Suc j]))))"
  by (subst practice_trial_returns[OF g _ _ refl, where response = response and instruction = instruction])
     (simp_all add: resp instr[simplified] run_world_run_world loop_result_def
        practice_events_def appended_lines_def Let_def)

lemma practice_loop_returns:
  assumes g: "ex \<noteq> [] \<Longrightarrow> german_test_type test_type \<noteq> None"
      and c: "\<And>j. j < length ex \<Longrightarrow> collect_response None (windows w (plays w + j)) \<noteq> None"
      and t: "\<And>j. j < length ex \<Longrightarrow>
                instruction_texts (test_type @ ''_practice_'' @ correct_answer (ex ! j)) \<noteq> None"
  shows "for_enumerate (practice_trial test_type ex instruction_texts pf tf img p start start_str)
           0 ex (rs, w) =
         Some (Inr (rs @ map (loop_result w test_type ''practice'' None start start_str ex) [0..<length ex],
           run_world w (length ex)
             (concat (map (practice_events w test_type instruction_texts img ex) [0..<length ex]))
             (appended_lines (files w) pf
                (map (\<lambda>j. csv_line p (loop_result w test_type ''practice'' None start start_str ex j))
                   [0..<length ex]))))"
proof -
  let ?out = "loop_result w test_type ''practice'' None start start_str ex"
  let ?ev = "practice_events w test_type instruction_texts img ex"
  let ?I = "\<lambda>j s. s = (rs @ map ?out [0..<j],
               run_world w j (concat (map ?ev [0..<j]))
                 (appended_lines (files w) pf (map (\<lambda>j. csv_line p (?out j)) [0..<j])))"
  have "\<exists>s'. for_enumerate (practice_trial test_type ex instruction_texts pf tf img p start start_str)
           0 ex (rs, w) = Some (Inr s') \<and> ?I (length ex) s'"
  proof (rule for_enumerate_returns)
    show "?I 0 (rs, w)" by (simp add: appended_lines_def run_world_0)
  next
    fix j s
    assume j: "j < length ex" and s: "?I j s"
    from j g obtain plural where plural: "german_test_type test_type = Some plural" by fastforce
    from c[OF j] obtain response
      where resp: "collect_response None (windows w (plays w + j)) = Some response" by auto
    from t[OF j] obtain instruction
      where instr: "instruction_texts (test_type @ ''_practice_'' @ correct_answer (ex ! j))
                      = Some instruction" by auto
    show "\<exists>s'. practice_trial test_type ex instruction_texts pf tf img p start start_str
                  (0 + j) (ex ! j) s = Some (Inr s') \<and> ?I (Suc j) s'"
      unfolding s
      using practice_step[where w = w and j = j and ex = ex
          and instruction_texts = instruction_texts and pf = pf and tf = tf and img = img
          and p = p and start = start and start_str = start_str and rs = rs,
          OF plural resp instr]
      by simp
  qed
  then show ?thesis by auto
qed

lemma practice_loop_returned:
  assumes ret: "for_enumerate (practice_trial test_type ex instruction_texts pf tf img p start start_str)
           0 ex (rs, w) = Some (Inr s')"
  shows "s' = (rs @ map (loop_result w test_type ''practice'' None start start_str ex) [0..<length ex],
           run_world w (length ex)
             (concat (map (practice_events w test_type instruction_texts img ex) [0..<length ex]))
             (appended_lines (files w) pf
                (map (\<lambda>j. csv_line p (loop_result w test_type ''practice'' None start start_str ex j))
                   [0..<length ex])))
       \<and> (\<forall>j<length ex. collect_response None (windows w (plays w + j)) \<noteq> None
              \<and> instruction_texts (test_type @ ''_practice_'' @ correct_answer (ex ! j)) \<noteq> None)
       \<and> (0 < length ex \<longrightarrow> german_test_type test_type \<noteq> None)"
proof -
  let ?out = "loop_result w test_type ''practice'' None start start_str ex"
  let ?ev = "practice_events w test_type instruction_texts img ex"
  let ?at = "\<lambda>j. (rs @ map ?out [0..<j],
               run_world w j (concat (map ?ev [0..<j]))
                 (appended_lines (files w) pf (map (\<lambda>j. csv_line p (?out j)) [0..<j])))"
  let ?I = "\<lambda>j s. s = ?at j
       \<and> (\<forall>k<j. collect_response None (windows w (plays w + k)) \<noteq> None
              \<and> instruction_texts (test_type @ ''_practice_'' @ correct_answer (ex ! k)) \<noteq> None)
       \<and> (0 < j \<longrightarrow> german_test_type test_type \<noteq> None)"
  have "?I (length ex) s'"
  proof (rule for_enumerate_returned[where I = "?I", OF ret])
    show "?I 0 (rs, w)" by (simp add: appended_lines_def run_world_0)
  next
    fix j s t
    assume j: "j < length ex" and s: "?I j s"
      and body: "practice_trial test_type ex instruction_texts pf tf img p start start_str
                   (0 + j) (ex ! j) s = Some (Inr t)"
    from s have s_eq: "s = ?at j" by blast
    from practice_trial_returned[OF body[unfolded s_eq]]
    obtain plural response instruction where g: "german_test_type test_type = Some plural"
      and resp: "collect_response None (windows w (plays w + j)) = Some response"
      and instr: "instruction_texts (test_type @ ''_practice_'' @ correct_answer (ex ! j))
                    = Some instruction"
      by auto
    from practice_step[where w = w and j = j and ex = ex and instruction_texts = instruction_texts
        and pf = pf and tf = tf and img = img and p = p and start = start
        and start_str = start_str and rs = rs, OF g resp instr] body[unfolded s_eq]
    have t: "t = ?at (Suc j)" by simp
    have "\<forall>k<Suc j. collect_response None (windows w (plays w + k)) \<noteq> None
              \<and> instruction_texts (test_type @ ''_practice_'' @ correct_answer (ex ! k)) \<noteq> None"
      using s resp instr by (auto simp: less_Suc_eq)
    with t g show "?I (Suc j) t" by simp
  qed
  then show ?thesis by blast
qed

subsection \<open>Response collection\<close>

lemma getKeys_member: "getKeys keyList buffered = key # rest \<Longrightarrow> key \<in> set keyList"
proof -
  assume "getKeys keyList buffered = key # rest"
  then have "key \<in> set (filter (\<lambda>key. key \<in> set keyList) buffered)"
    by (simp add: getKeys_def)
  then show ?thesis by simp
qed

lemma first_round:
  assumes "P (k::nat)"
  obtains m where "P m" "\<And>j. j < m \<Longrightarrow> \<not> P j"
  using assms exists_least_iff[of P] by blast

lemma collect_response_key:
  assumes "\<And>j. j < k \<Longrightarrow> window_open limit (env_elapsed env j) \<and> getKeys [''y'', ''n''] (env_keys env j) = []"
    and "window_open limit (env_elapsed env k)"
    and "getKeys [''y'', ''n''] (env_keys env k) = key # rest"
  shows "collect_response limit env = Some (if key = ''y'' then ''yes'' else ''no'')"
proof -
  have "response_loop limit (env_elapsed env) (env_keys env) 0 = Some (Some key)"
    by (rule response_loop_key[where k = k and rest = rest]) (use assms in auto)
  moreover have "key = ''y'' \<or> key = ''n''"
    using getKeys_member[OF assms(3)] by simp
  ultimately show ?thesis
    by (auto simp: collect_response_def translate_response_def)
qed

lemma collect_response_timeout:
  assumes "\<And>j. j < k \<Longrightarrow> window_open limit (env_elapsed env j) \<and> getKeys [''y'', ''n''] (env_keys env j) = []"
    and "\<not> window_open limit (env_elapsed env k)"
  shows "collect_response limit env = Some ''NA''"
proof -
  have "response_loop limit (env_elapsed env) (env_keys env) 0 = Some None"
    by (rule response_loop_timeout[where k = k]) (use assms in auto)
  then show ?thesis
    by (simp add: collect_response_def translate_response_def)
qed

lemma collect_response_cases:
  assumes "collect_response limit env = Some r"
  obtains (key) k key rest where
      "\<And>j. j < k \<Longrightarrow> window_open limit (env_elapsed env j) \<and> getKeys [''y'', ''n''] (env_keys env j) = []"
      "window_open limit (env_elapsed env k)"
      "getKeys [''y'', ''n''] (env_keys env k) = key # rest"
      "r = (if key = ''y'' then ''yes'' else ''no'')"
    | (timeout) k where
      "\<And>j. j < k \<Longrightarrow> window_open limit (env_elapsed env j) \<and> getKeys [''y'', ''n''] (env_keys env j) = []"
      "\<not> window_open limit (env_elapsed env k)"
      "r = ''NA''"
proof -
  from assms obtain r0 where r0: "response_loop limit (env_elapsed env) (env_keys env) 0 = Some r0"
    and r: "r = translate_response r0"
    by (auto simp: collect_response_def)
  from response_loop_stops[OF r0] obtain k where
    q: "quiet limit (env_elapsed env) (env_keys env) 0 k"
    and st: "stopped limit (env_elapsed env) (env_keys env) k r0" by blast
  from q have quiet: "\<And>j. j < k \<Longrightarrow>
      window_open limit (env_elapsed env j) \<and> getKeys [''y'', ''n''] (env_keys env j) = []"
    by (simp add: quiet_def)
  show thesis
  proof (cases "window_open limit (env_elapsed env k)")
    case False
    with st have "r0 = None" by (simp add: stopped_def)
    then have "r = ''NA''" by (simp add: r translate_response_def)
    with quiet False show thesis by (rule timeout)
  next
    case True
    with st obtain key rest where k: "getKeys [''y'', ''n''] (env_keys env k) = key # rest"
      "r0 = Some key"
      by (auto simp: stopped_def split: list.splits)
    have "key = ''y'' \<or> key = ''n''" using getKeys_member[OF k(1)] by simp
    then have "r = (if key = ''y'' then ''yes'' else ''no'')"
      by (auto simp: r k(2) translate_response_def)
    with quiet True k(1) show thesis by (rule key)
  qed
qed

lemma closes_iff: "closes limit env \<longleftrightarrow> collect_response limit env \<noteq> None"
proof
  assume "closes limit env"
  then obtain k0 where "\<not> window_open limit (env_elapsed env k0)
          \<or> getKeys [''y'', ''n''] (env_keys env k0) \<noteq> []"
    by (auto simp: closes_def)
  then obtain k where k: "\<not> window_open limit (env_elapsed env k)
          \<or> getKeys [''y'', ''n''] (env_keys env k) \<noteq> []"
    and before: "\<And>j. j < k \<Longrightarrow> \<not> (\<not> window_open limit (env_elapsed env j)
          \<or> getKeys [''y'', ''n''] (env_keys env j) \<noteq> [])"
    by (rule first_round[where P = "\<lambda>k. \<not> window_open limit (env_elapsed env k)
          \<or> getKeys [''y'', ''n''] (env_keys env k) \<noteq> []"]) blast
  from before have quiet: "\<And>j. j < k \<Longrightarrow>
      window_open limit (env_elapsed env j) \<and> getKeys [''y'', ''n''] (env_keys env j) = []"
    by blast
  show "collect_response limit env \<noteq> None"
  proof (cases "window_open limit (env_elapsed env k)")
    case False
    from collect_response_timeout[OF quiet False] show ?thesis by simp
  next
    case True
    with k obtain key rest where "getKeys [''y'', ''n''] (env_keys env k) = key # rest"
      by (cases "getKeys [''y'', ''n''] (env_keys env k)") auto
    from collect_response_key[OF quiet True this] show ?thesis by simp
  qed
next
  assume "collect_response limit env \<noteq> None"
  then obtain r where "collect_response limit env = Some r" by auto
  then show "closes limit env"
  proof (cases rule: collect_response_cases)
    case (key k key rest)
    then have "getKeys [''y'', ''n''] (env_keys env k) \<noteq> []" by simp
    then show ?thesis unfolding closes_def by blast
  next
    case (timeout k)
    then show ?thesis unfolding closes_def by blast
  qed
qed

lemma play_response:
  "map_option fst (play_stimulus_and_display_prompt stimulus prompt_text time_limit trial_number
       base_image_path total_trials test_type w) = collect_response time_limit (windows w (plays w))"
  by (simp add: play_stimulus_and_display_prompt_def Let_def split: option.splits)

subsection \<open>One sub-test, start to end\<close>

lemma test_step:
  assumes g: "german_test_type test_type = Some plural"
    and resp: "collect_response (Some 2) (windows w (plays w + j)) = Some response"
  shows "test_trial test_type ts pf tf img p start start_str (0 + j) (ts ! j)
           (rs @ map (loop_result w test_type ''test'' (Some 2) start start_str ts) [0..<j],
            run_world w j
              (concat (map (\<lambda>j. trial_events test_type img (length ts) j (ts ! j)) [0..<j]))
              (appended_lines (files w) tf
                 (map (\<lambda>j. csv_line p (loop_result w test_type ''test'' (Some 2) start start_str ts j))
                    [0..<j])))
         = Some (Inr (rs @ map (loop_result w test_type ''test'' (Some 2) start start_str ts) [0..<Suc j],
            run_world w (Suc j)
              (concat (map (\<lambda>j. trial_events test_type img (length ts) j (ts ! j)) [0..<Suc j]))
              (appended_lines (files w) tf
                 (map (\<lambda>j. csv_line p (loop_result w test_type ''test'' (Some 2) start start_str ts j))
                    [0..<Suc j]))))"
  by (subst test_trial_returns[OF g _ refl, where response = response])
     (simp_all add: resp run_world_run_world loop_result_def appended_lines_def Let_def)

lemma test_loop_returns:
  assumes g: "ts \<noteq> [] \<Longrightarrow> german_test_type test_type \<noteq> None"
      and c: "\<And>j. j < length ts \<Longrightarrow> collect_response (Some 2) (windows w (plays w + j)) \<noteq> None"
  shows "for_enumerate (test_trial test_type ts pf tf img p start start_str) 0 ts (rs, w) =
         Some (Inr (rs @ map (loop_result w test_type ''test'' (Some 2) start start_str ts) [0..<length ts],
           run_world w (length ts)
             (concat (map (\<lambda>j. trial_events test_type img (length ts) j (ts ! j)) [0..<length ts]))
             (appended_lines (files w) tf
                (map (\<lambda>j. csv_line p (loop_result w test_type ''test'' (Some 2) start start_str ts j))
                   [0..<length ts]))))"
proof -
  let ?out = "loop_result w test_type ''test'' (Some 2) start start_str ts"
  let ?ev = "\<lambda>j. trial_events test_type img (length ts) j (ts ! j)"
  let ?I = "\<lambda>j s. s = (rs @ map ?out [0..<j],
               run_world w j (concat (map ?ev [0..<j]))
                 (appended_lines (files w) tf (map (\<lambda>j. csv_line p (?out j)) [0..<j])))"
  have "\<exists>s'. for_enumerate (test_trial test_type ts pf tf img p start start_str)
           0 ts (rs, w) = Some (Inr s') \<and> ?I (length ts) s'"
  proof (rule for_enumerate_returns[where I = "?I"])
    show "?I 0 (rs, w)" by (simp add: appended_lines_def run_world_0)
  next
    fix j s
    assume j: "j < length ts" and s: "?I j s"
    from j g obtain plural where plural: "german_test_type test_type = Some plural" by fastforce
    from c[OF j] obtain response
      where resp: "collect_response (Some 2) (windows w (plays w + j)) = Some response" by auto
    show "\<exists>s'. test_trial test_type ts pf tf img p start start_str
                  (0 + j) (ts ! j) s = Some (Inr s') \<and> ?I (Suc j) s'"
      unfolding s
      using test_step[where w = w and j = j and ts = ts and pf = pf and tf = tf and img = img
          and p = p and start = start and start_str = start_str and rs = rs, OF plural resp]
      by simp
  qed
  then show ?thesis by auto
qed

lemma test_loop_returned:
  assumes ret: "for_enumerate (test_trial test_type ts pf tf img p start start_str) 0 ts (rs, w)
                  = Some (Inr s')"
  shows "s' = (rs @ map (loop_result w test_type ''test'' (Some 2) start start_str ts) [0..<length ts],
           run_world w (length ts)
             (concat (map (\<lambda>j. trial_events test_type img (length ts) j (ts ! j)) [0..<length ts]))
             (appended_lines (files w) tf
                (map (\<lambda>j. csv_line p (loop_result w test_type ''test'' (Some 2) start start_str ts j))
                   [0..<length ts])))
       \<and> (\<forall>j<length ts. collect_response (Some 2) (windows w (plays w + j)) \<noteq> None)
       \<and> (0 < length ts \<longrightarrow> german_test_type test_type \<noteq> None)"
proof -
  let ?out = "loop_result w test_type ''test'' (Some 2) start start_str ts"
  let ?ev = "\<lambda>j. trial_events test_type img (length ts) j (ts ! j)"
  let ?at = "\<lambda>j. (rs @ map ?out [0..<j],
               run_world w j (concat (map ?ev [0..<j]))
                 (appended_lines (files w) tf (map (\<lambda>j. csv_line p (?out j)) [0..<j])))"
  let ?I = "\<lambda>j s. s = ?at j
       \<and> (\<forall>k<j. collect_response (Some 2) (windows w (plays w + k)) \<noteq> None)
       \<and> (0 < j \<longrightarrow> german_test_type test_type \<noteq> None)"
  have "?I (length ts) s'"
  proof (rule for_enumerate_returned[where I = "?I", OF ret])
    show "?I 0 (rs, w)" by (simp add: appended_lines_def run_world_0)
  next
    fix j s t
    assume j: "j < length ts" and s: "?I j s"
      and body: "test_trial test_type ts pf tf img p start start_str (0 + j) (ts ! j) s = Some (Inr t)"
    from s have s_eq: "s = ?at j" by blast
    from test_trial_returned[OF body[unfolded s_eq]]
    obtain plural response where g: "german_test_type test_type = Some plural"
      and resp: "collect_response (Some 2) (windows w (plays w + j)) = Some response"
      by auto
    from test_step[where w = w and j = j and ts = ts
        and pf = pf and tf = tf and img = img and p = p and start = start
        and start_str = start_str and rs = rs, OF g resp] body[unfolded s_eq]
    have t: "t = ?at (Suc j)" by simp
    have "\<forall>k<Suc j. collect_response (Some 2) (windows w (plays w + k)) \<noteq> None"
      using s resp by (auto simp: less_Suc_eq)
    with t g show "?I (Suc j) t" by simp
  qed
  then show ?thesis by blast
qed

lemma loop_result_outcome:
  assumes "windows w0 = windows w" "plays w0 = plays w + before" "now w0 = now w"
    "ticks w0 = ticks w + 1 + before" "utc_offset w0 = utc_offset w"
  shows "loop_result w0 test_type phase time_limit (now w (ticks w))
           (strftime_HMS (utc_offset w) (now w (ticks w))) xs
         = outcome w test_type phase time_limit before xs"
  by (rule ext) (simp add: loop_result_def outcome_def assms Let_def)

lemma practice_events_world:
  assumes "windows w0 = windows w" "plays w0 = plays w"
  shows "practice_events w0 test_type instruction_texts img ex
       = practice_events w test_type instruction_texts img ex"
  by (rule ext) (simp add: practice_events_def assms)

lemma musical_ear_test_returns:
  assumes g: "ex \<noteq> [] \<or> ts \<noteq> [] \<Longrightarrow> german_test_type test_type \<noteq> None"
    and p1: "instruction_texts (test_type @ ''_part1'') = Some part1"
    and p2: "instruction_texts (test_type @ ''_part2'') = Some part2"
    and pr: "\<And>j. j < length ex \<Longrightarrow>
               instruction_texts (test_type @ ''_practice_'' @ correct_answer (ex ! j)) \<noteq> None"
    and c1: "\<And>j. j < length ex \<Longrightarrow> collect_response None (windows w (plays w + j)) \<noteq> None"
    and c2: "\<And>j. j < length ts \<Longrightarrow>
               collect_response (Some 2) (windows w (plays w + length ex + j)) \<noteq> None"
  shows "\<exists>w'. musical_ear_test test_type ex ts instruction_texts pf tf img p w =
           Some (Inr (map (outcome w test_type ''practice'' None 0 ex) [0..<length ex]
                      @ map (outcome w test_type ''test'' (Some 2) (length ex) ts) [0..<length ts],
                      w'))
         \<and> screen w' = screen w @ Instructions part1
               # concat (map (practice_events w test_type instruction_texts img ex) [0..<length ex])
               @ Instructions part2
               # concat (map (\<lambda>j. trial_events test_type img (length ts) j (ts ! j)) [0..<length ts])
         \<and> files w' = appended_lines
               (appended_lines (files w) pf
                 (map (\<lambda>j. csv_line p (outcome w test_type ''practice'' None 0 ex j)) [0..<length ex]))
               tf (map (\<lambda>j. csv_line p (outcome w test_type ''test'' (Some 2) (length ex) ts j))
                    [0..<length ts])
         \<and> opened w' = opened w
         \<and> ticks w' = ticks w + 1 + length ex + length ts
         \<and> plays w' = plays w + length ex + length ts
         \<and> now w' = now w \<and> windows w' = windows w \<and> utc_offset w' = utc_offset w"
proof -
  define wA where "wA = display_instructions part1 (w\<lparr>ticks := Suc (ticks w)\<rparr>)"
  have A: "windows wA = windows w" "plays wA = plays w" "now wA = now w"
    "ticks wA = ticks w + 1 + 0" "utc_offset wA = utc_offset w" "files wA = files w"
    "screen wA = screen w @ [Instructions part1]" "opened wA = opened w"
    by (simp_all add: wA_def display_instructions_def)
  let ?start = "now w (ticks w)"
  let ?str = "strftime_HMS (utc_offset w) ?start"
  let ?pout = "outcome w test_type ''practice'' None 0 ex"
  let ?tout = "outcome w test_type ''test'' (Some 2) (length ex) ts"
  let ?pev = "practice_events w test_type instruction_texts img ex"
  define wB where "wB = run_world wA (length ex) (concat (map ?pev [0..<length ex]))
      (appended_lines (files w) pf (map (\<lambda>j. csv_line p (?pout j)) [0..<length ex]))"
  have ploop: "for_enumerate (practice_trial test_type ex instruction_texts pf tf img p ?start ?str)
           0 ex ([], wA) = Some (Inr (map ?pout [0..<length ex], wB))"
    using practice_loop_returns[where test_type = test_type and ex = ex and w = wA
        and instruction_texts = instruction_texts and pf = pf and tf = tf and img = img and p = p
        and start = ?start and start_str = ?str and rs = "[]"] g c1 pr
    by (simp add: A loop_result_outcome[of wA w 0, OF A(1) _ A(3) A(4) A(5)]
        practice_events_world[OF A(1) A(2)] wB_def)
  define wC where "wC = display_instructions part2 wB"
  have C: "windows wC = windows w" "plays wC = plays w + length ex" "now wC = now w"
    "ticks wC = ticks w + 1 + length ex" "utc_offset wC = utc_offset w"
    "files wC = appended_lines (files w) pf (map (\<lambda>j. csv_line p (?pout j)) [0..<length ex])"
    "screen wC = screen w @ Instructions part1 # concat (map ?pev [0..<length ex]) @ [Instructions part2]"
    "opened wC = opened w"
    by (simp_all add: wC_def wB_def display_instructions_def A)
  define wD where "wD = run_world wC (length ts)
      (concat (map (\<lambda>j. trial_events test_type img (length ts) j (ts ! j)) [0..<length ts]))
      (appended_lines (files wC) tf (map (\<lambda>j. csv_line p (?tout j)) [0..<length ts]))"
  have tloop: "for_enumerate (test_trial test_type ts pf tf img p ?start ?str)
           0 ts (map ?pout [0..<length ex], wC)
         = Some (Inr (map ?pout [0..<length ex] @ map ?tout [0..<length ts], wD))"
    using test_loop_returns[where test_type = test_type and ts = ts and w = wC
        and pf = pf and tf = tf and img = img and p = p
        and start = ?start and start_str = ?str and rs = "map ?pout [0..<length ex]"] g c2
    by (simp add: C(1-5) loop_result_outcome[of wC w "length ex", OF C(1-5)] wD_def)
  have run: "musical_ear_test test_type ex ts instruction_texts pf tf img p w =
           Some (Inr (map ?pout [0..<length ex] @ map ?tout [0..<length ts], wD))"
    unfolding musical_ear_test_def
    by (simp add: time_time_def p1[simplified] p2[simplified] ploop
        wA_def[symmetric] tloop wC_def[symmetric] Let_def)
  show ?thesis
    by (rule exI[of _ wD]) (simp add: run, simp add: wD_def C)
qed

subsection \<open>Runs that return, and the example run\<close>

lemma correct_answer_yes_no: "correct_answer name = ''yes'' \<or> correct_answer name = ''no''"
  by (simp add: correct_answer_def)

lemma run_ready_returns:
  assumes "run_ready test_type ex ts instruction_texts w"
  shows "\<exists>w'. musical_ear_test test_type ex ts instruction_texts pf tf img p w =
           Some (Inr (map (outcome w test_type ''practice'' None 0 ex) [0..<length ex]
                      @ map (outcome w test_type ''test'' (Some 2) (length ex) ts) [0..<length ts],
                      w'))
         \<and> screen w' = screen w @ Instructions (the (instruction_texts (test_type @ ''_part1'')))
               # concat (map (practice_events w test_type instruction_texts img ex) [0..<length ex])
               @ Instructions (the (instruction_texts (test_type @ ''_part2'')))
               # concat (map (\<lambda>j. trial_events test_type img (length ts) j (ts ! j)) [0..<length ts])
         \<and> files w' = appended_lines
               (appended_lines (files w) pf
                 (map (\<lambda>j. csv_line p (outcome w test_type ''practice'' None 0 ex j)) [0..<length ex]))
               tf (map (\<lambda>j. csv_line p (outcome w test_type ''test'' (Some 2) (length ex) ts j))
                    [0..<length ts])
         \<and> opened w' = opened w
         \<and> ticks w' = ticks w + 1 + length ex + length ts
         \<and> plays w' = plays w + length ex + length ts
         \<and> now w' = now w \<and> windows w' = windows w \<and> utc_offset w' = utc_offset w"
proof -
  from assms have p1: "instruction_texts (test_type @ ''_part1'') \<noteq> None"
    and p2: "instruction_texts (test_type @ ''_part2'') \<noteq> None"
    and tt: "ex \<noteq> [] \<or> ts \<noteq> [] \<Longrightarrow> test_type = ''melody'' \<or> test_type = ''rhythm''"
    and pr: "\<And>j. j < length ex \<Longrightarrow>
               instruction_texts (test_type @ ''_practice_'' @ correct_answer (ex ! j)) \<noteq> None"
    and c1: "\<And>j. j < length ex \<Longrightarrow> closes None (windows w (plays w + j))"
    and c2: "\<And>j. j < length ts \<Longrightarrow> closes (Some 2) (windows w (plays w + length ex + j))"
    unfolding run_ready_def by blast+
  have g: "german_test_type test_type \<noteq> None" if "ex \<noteq> [] \<or> ts \<noteq> []"
    using tt[OF that] by (auto simp: german_test_type_def)
  from p1 obtain part1 where 1: "instruction_texts (test_type @ ''_part1'') = Some part1" by blast
  from p2 obtain part2 where 2: "instruction_texts (test_type @ ''_part2'') = Some part2" by blast
  show ?thesis
    using musical_ear_test_returns[OF g 1 2 pr, where w = w and pf = pf
        and tf = tf and img = img and p = p]
      c1[unfolded closes_iff] c2[unfolded closes_iff]
    by (simp add: 1 2)
qed

lemma german_test_type_dom:
  "german_test_type test_type \<noteq> None \<longleftrightarrow> test_type = ''melody'' \<or> test_type = ''rhythm''"
  by (simp add: german_test_type_def)

lemma run_returned_ready:
  assumes ret: "musical_ear_test test_type ex ts instruction_texts pf tf img p w
                  = Some (Inr (results, w'))"
  shows "run_ready test_type ex ts instruction_texts w"
proof -
  define wA where "wA part1 = display_instructions part1 (w\<lparr>ticks := Suc (ticks w)\<rparr>)" for part1
  let ?start = "now w (ticks w)"
  let ?str = "strftime_HMS (utc_offset w) ?start"
  from ret obtain part1 rs w2 part2
    where 1: "instruction_texts (test_type @ ''_part1'') = Some part1"
      and ploop: "for_enumerate
                    (practice_trial test_type ex instruction_texts pf tf img p ?start ?str)
                    0 ex ([], wA part1) = Some (Inr (rs, w2))"
      and 2: "instruction_texts (test_type @ ''_part2'') = Some part2"
      and tloop: "for_enumerate (test_trial test_type ts pf tf img p ?start ?str)
                    0 ts (rs, display_instructions part2 w2) = Some (Inr (results, w'))"
    unfolding musical_ear_test_def wA_def
    by (auto simp: time_time_def Let_def split: option.splits sum.splits prod.splits)
  have A: "windows (wA part1) = windows w" "plays (wA part1) = plays w"
    by (simp_all add: wA_def display_instructions_def)
  from practice_loop_returned[OF ploop]
  have w2: "windows w2 = windows w" "plays w2 = plays w + length ex"
    and pc: "\<forall>j<length ex. collect_response None (windows w (plays w + j)) \<noteq> None
              \<and> instruction_texts (test_type @ ''_practice_'' @ correct_answer (ex ! j)) \<noteq> None"
    and pg: "0 < length ex \<longrightarrow> german_test_type test_type \<noteq> None"
    by (simp_all add: A)
  from test_loop_returned[OF tloop]
  have tc: "\<forall>j<length ts. collect_response (Some 2) (windows w (plays w + length ex + j)) \<noteq> None"
    and tg: "0 < length ts \<longrightarrow> german_test_type test_type \<noteq> None"
    by (simp_all add: w2 display_instructions_def)
  from pg tg have "ex \<noteq> [] \<or> ts \<noteq> [] \<longrightarrow> test_type = ''melody'' \<or> test_type = ''rhythm''"
    unfolding german_test_type_dom by auto
  with 1 2 pc tc show ?thesis
    unfolding run_ready_def closes_iff by simp
qed

lemma run_returned:
  assumes ret: "musical_ear_test test_type ex ts instruction_texts pf tf img p w
                  = Some (Inr (results, w'))"
  shows "results = map (outcome w test_type ''practice'' None 0 ex) [0..<length ex]
                   @ map (outcome w test_type ''test'' (Some 2) (length ex) ts) [0..<length ts]
         \<and> screen w' = screen w @ Instructions (the (instruction_texts (test_type @ ''_part1'')))
               # concat (map (practice_events w test_type instruction_texts img ex) [0..<length ex])
               @ Instructions (the (instruction_texts (test_type @ ''_part2'')))
               # concat (map (\<lambda>j. trial_events test_type img (length ts) j (ts ! j)) [0..<length ts])
         \<and> files w' = appended_lines
               (appended_lines (files w) pf
                 (map (\<lambda>j. csv_line p (outcome w test_type ''practice'' None 0 ex j)) [0..<length ex]))
               tf (map (\<lambda>j. csv_line p (outcome w test_type ''test'' (Some 2) (length ex) ts j))
                    [0..<length ts])
         \<and> opened w' = opened w
         \<and> ticks w' = ticks w + 1 + length ex + length ts
         \<and> plays w' = plays w + length ex + length ts
         \<and> now w' = now w \<and> windows w' = windows w \<and> utc_offset w' = utc_offset w"
  using run_ready_returns[OF run_returned_ready[OF ret], of pf tf img p] ret by auto

lemma outcome_fields:
  "outcome w test_type phase time_limit before xs j ''trial'' = Some (PInt (int j + 1))"
  "outcome w test_type phase time_limit before xs j ''type'' = Some (PStr test_type)"
  "outcome w test_type phase time_limit before xs j ''phase'' = Some (PStr phase)"
  "outcome w test_type phase time_limit before xs j ''stimulus'' = Some (PStr (xs ! j))"
  "outcome w test_type phase time_limit before xs j ''response'' =
     Some (PStr (the (collect_response time_limit (windows w (plays w + before + j)))))"
  "outcome w test_type phase time_limit before xs j ''correct'' =
     Some (PStr (correct_answer (xs ! j)))"
  "outcome w test_type phase time_limit before xs j ''accuracy'' =
     Some (PInt (accuracy (the (collect_response time_limit (windows w (plays w + before + j))))
                          (correct_answer (xs ! j))))"
  "outcome w test_type phase time_limit before xs j ''start_time'' =
     Some (PStr (strftime_HMS (utc_offset w) (now w (ticks w))))"
  "outcome w test_type phase time_limit before xs j ''end_time'' =
     Some (PStr (strftime_HMS (utc_offset w) (now w (ticks w + 1 + before + j))))"
  "outcome w test_type phase time_limit before xs j ''duration'' =
     Some (PStr (format_duration (now w (ticks w + 1 + before + j) - now w (ticks w))))"
  by (simp_all add: outcome_def trial_result_def Let_def)

lemma nth_two_maps:
  "i < n \<Longrightarrow> (map f [0..<n] @ map g [0..<m]) ! i = f i"
  "i < m \<Longrightarrow> (map f [0..<n] @ map g [0..<m]) ! (n + i) = g i"
  by (simp_all add: nth_append)

lemma demo_window_yes:
  assumes "k mod 4 < 2" "limit = None \<or> limit = Some 2"
  shows "collect_response limit (demo_windows k) = Some ''yes''"
proof -
  have "collect_response limit (demo_windows k) = Some (if ''y'' = ''y'' then ''yes'' else ''no'')"
  proof (rule collect_response_key[where k = 1 and rest = "[]"])
    fix j :: nat
    assume "j < 1"
    with assms(2) show "window_open limit (env_elapsed (demo_windows k) j) \<and>
         getKeys [''y'', ''n''] (env_keys (demo_windows k) j) = []"
      by (auto simp: demo_windows_def getKeys_def window_open_def)
  next
    from assms(2) show "window_open limit (env_elapsed (demo_windows k) 1)"
      by (auto simp: demo_windows_def window_open_def)
  next
    from assms(1) have "k mod 4 = 0 \<or> k mod 4 = 1" by linarith
    then show "getKeys [''y'', ''n''] (env_keys (demo_windows k) 1) = ''y'' # []"
      by (auto simp: demo_windows_def getKeys_def)
  qed
  then show ?thesis by simp
qed

lemma demo_window_no:
  assumes "k mod 4 = 2" "limit = None \<or> limit = Some 2"
  shows "collect_response limit (demo_windows k) = Some ''no''"
proof -
  have "collect_response limit (demo_windows k) = Some (if ''n'' = ''y'' then ''yes'' else ''no'')"
  proof (rule collect_response_key[where k = 1 and rest = "[''y'']"])
    fix j :: nat
    assume "j < 1"
    with assms(2) show "window_open limit (env_elapsed (demo_windows k) j) \<and>
         getKeys [''y'', ''n''] (env_keys (demo_windows k) j) = []"
      by (auto simp: demo_windows_def getKeys_def window_open_def)
  next
    from assms(2) show "window_open limit (env_elapsed (demo_windows k) 1)"
      by (auto simp: demo_windows_def window_open_def)
  next
    from assms(1) show "getKeys [''y'', ''n''] (env_keys (demo_windows k) 1) = ''n'' # [''y'']"
      by (simp add: demo_windows_def getKeys_def)
  qed
  then show ?thesis by simp
qed

lemma demo_window_silent:
  assumes "k mod 4 = 3"
  shows "collect_response (Some 2) (demo_windows k) = Some ''NA''"
proof (rule collect_response_timeout[where k = 4])
  fix j :: nat
  assume "j < 4"
  with assms show "window_open (Some 2) (env_elapsed (demo_windows k) j) \<and>
         getKeys [''y'', ''n''] (env_keys (demo_windows k) j) = []"
    by (simp add: demo_windows_def getKeys_def window_open_def)
next
  show "\<not> window_open (Some 2) (env_elapsed (demo_windows k) 4)"
    by (simp add: demo_windows_def window_open_def)
qed

lemma demo_responses:
  "collect_response None (demo_windows 0) = Some ''yes''"
  "collect_response None (demo_windows (Suc 0)) = Some ''yes''"
  "collect_response (Some 2) (demo_windows (Suc (Suc 0))) = Some ''no''"
  "collect_response (Some 2) (demo_windows (Suc (Suc (Suc 0)))) = Some ''NA''"
  by (simp_all add: demo_window_yes demo_window_no demo_window_silent)

lemma demo_correct_answers:
  "correct_answer ''audio/rhythm_example1_identical.wav'' = ''yes''"
  "correct_answer ''audio/rhythm_example2_different.wav'' = ''no''"
  "correct_answer ''audio/rhythm_test01_different.wav'' = ''no''"
  "correct_answer ''audio/rhythm_test07_identical.wav'' = ''yes''"
  by (simp_all add: correct_answer_def py_split_def)

lemma demo_ready: "run_ready ''rhythm'' demo_examples demo_tests demo_texts demo_world"
proof -
  have "closes None (demo_windows 0)" "closes None (demo_windows (Suc 0))"
    "closes (Some 2) (demo_windows (Suc (Suc 0)))"
    "closes (Some 2) (demo_windows (Suc (Suc (Suc 0))))"
    by (simp_all add: closes_iff demo_responses)
  then show ?thesis
    by (simp add: run_ready_def demo_texts_def demo_examples_def demo_tests_def demo_world_def
        demo_correct_answers less_Suc_eq numeral_2_eq_2)
qed

lemma demo_results:
  "results_of demo_run =
     [outcome demo_world ''rhythm'' ''practice'' None 0 demo_examples 0,
      outcome demo_world ''rhythm'' ''practice'' None 0 demo_examples 1,
      outcome demo_world ''rhythm'' ''test'' (Some 2) 2 demo_tests 0,
      outcome demo_world ''rhythm'' ''test'' (Some 2) 2 demo_tests 1]"
proof -
  from run_ready_returns[OF demo_ready, of "''practice.csv''" "''test.csv''" "''pics''" demo_info]
  obtain w' where run: "demo_run = Some (Inr
     (map (outcome demo_world ''rhythm'' ''practice'' None 0 demo_examples) [0..<length demo_examples]
      @ map (outcome demo_world ''rhythm'' ''test'' (Some 2) (length demo_examples) demo_tests)
          [0..<length demo_tests], w'))"
    unfolding demo_run_def by blast
  have len: "length demo_examples = 2" "length demo_tests = 2"
    by (simp_all add: demo_examples_def demo_tests_def)
  have upt: "[0..<2] = [0, 1]" by (simp add: upt_rec)
  show ?thesis unfolding results_of_def run len upt by simp
qed

subsection \<open>Durations, scores and lists\<close>

lemma py_int_of_int: "py_int (of_int k) = k"
  by (simp add: py_int_def)

lemma format_duration_floor:
  "format_duration d =
     format_02d (\<lfloor>d\<rfloor> div 3600) @ '':'' @ format_02d (\<lfloor>d\<rfloor> mod 3600 div 60) @ '':''
       @ format_02d (\<lfloor>d\<rfloor> mod 60)"
proof -
  define h where "h = \<lfloor>d / 3600\<rfloor>"
  define remainder where "remainder = d - of_int h * 3600"
  define m where "m = \<lfloor>remainder / 60\<rfloor>"
  define s where "s = remainder - of_int m * 60"
  have h: "h = \<lfloor>d\<rfloor> div 3600"
    using floor_divide_real_eq_div[of 3600 d] by (simp add: h_def)
  have "\<lfloor>remainder\<rfloor> = \<lfloor>d\<rfloor> - h * 3600"
  proof -
    have "remainder = d - of_int (h * 3600)" by (simp add: remainder_def)
    then show ?thesis by (simp only: floor_diff_of_int)
  qed
  then have fr: "\<lfloor>remainder\<rfloor> = \<lfloor>d\<rfloor> mod 3600"
    by (simp add: h minus_div_mult_eq_mod)
  have m: "m = \<lfloor>d\<rfloor> mod 3600 div 60"
    using floor_divide_real_eq_div[of 60 remainder] by (simp add: m_def fr)
  have "\<lfloor>s\<rfloor> = \<lfloor>remainder\<rfloor> - m * 60"
  proof -
    have "s = remainder - of_int (m * 60)" by (simp add: s_def)
    then show ?thesis by (simp only: floor_diff_of_int)
  qed
  then have "\<lfloor>s\<rfloor> = \<lfloor>d\<rfloor> mod 3600 mod 60"
    by (simp add: fr m minus_div_mult_eq_mod)
  then have fs: "\<lfloor>s\<rfloor> = \<lfloor>d\<rfloor> mod 60"
    by (simp add: mod_mod_cancel)
  then have "0 \<le> \<lfloor>s\<rfloor>" by simp
  then have "0 \<le> s" by linarith
  then have s: "py_int s = \<lfloor>d\<rfloor> mod 60" by (simp add: py_int_def fs)
  have "format_duration d =
      format_02d (py_int (of_int h)) @ '':'' @ format_02d (py_int (of_int m)) @ '':''
        @ format_02d (py_int s)"
    by (simp add: format_duration_def py_divmod_def Let_def h_def remainder_def m_def s_def)
  then show ?thesis by (simp only: py_int_of_int s h[symmetric] m[symmetric])
qed

lemma accuracy_cases:
  assumes "correct \<noteq> ''NA''"
  shows "accuracy response correct \<in> {0, 1, 99}
     \<and> (accuracy response correct = 1 \<longleftrightarrow> response = correct)
     \<and> (accuracy response correct = 99 \<longleftrightarrow> response = ''NA'')
     \<and> (accuracy response correct = 0 \<longleftrightarrow> response \<noteq> correct \<and> response \<noteq> ''NA'')"
  using assms by (auto simp: accuracy_def)

lemma accuracy_no_response_first:
  assumes "correct \<noteq> ''NA''"
  shows "accuracy response correct
           = (if response = ''NA'' then 99 else if response = correct then 1 else 0)
     \<and> (response = ''NA'' \<longrightarrow> accuracy response correct \<noteq> 1)"
  using assms by (auto simp: accuracy_def)

lemma correct_answer_not_NA: "correct_answer name \<noteq> ''NA''"
  by (simp add: correct_answer_def)

lemma in_two_maps:
  assumes "r \<in> set (map f [0..<n] @ map g [0..<m])"
  obtains j where "j < n" "r = f j" | j where "j < m" "r = g j"
  using assms by auto

lemma nth_two_maps_cases:
  assumes "k < n + m"
  obtains "k < n" "(map f [0..<n] @ map g [0..<m]) ! k = f k"
  | i where "i < m" "k = n + i" "(map f [0..<n] @ map g [0..<m]) ! k = g i"
proof (cases "k < n")
  case True
  then show ?thesis using that(1) by (simp add: nth_append)
next
  case False
  with assms have "k - n < m" "k = n + (k - n)" by auto
  moreover from this have "(map f [0..<n] @ map g [0..<m]) ! k = g (k - n)"
    by (metis nth_two_maps(2))
  ultimately show ?thesis using that(2) by blast
qed

lemma demo_ready_again:
  assumes "windows v = demo_windows" "plays v mod 4 = 0"
  shows "run_ready ''rhythm'' demo_examples demo_tests demo_texts v"
proof -
  have m: "(plays v + 0) mod 4 = 0" "(plays v + 1) mod 4 = 1" "(plays v + 2 + 0) mod 4 = 2"
    "(plays v + 2 + 1) mod 4 = 3"
    using assms(2) by presburger+
  have "collect_response None (demo_windows (plays v + 0)) = Some ''yes''"
    by (rule demo_window_yes) (use m in simp_all)
  moreover have "collect_response None (demo_windows (plays v + 1)) = Some ''yes''"
    by (rule demo_window_yes) (use m in simp_all)
  moreover have "collect_response (Some 2) (demo_windows (plays v + 2 + 0)) = Some ''no''"
    by (rule demo_window_no) (use m in simp_all)
  moreover have "collect_response (Some 2) (demo_windows (plays v + 2 + 1)) = Some ''NA''"
    by (rule demo_window_silent) (use m in simp)
  ultimately have "closes None (demo_windows (plays v + 0))"
    "closes None (demo_windows (plays v + 1))"
    "closes (Some 2) (demo_windows (plays v + 2 + 0))"
    "closes (Some 2) (demo_windows (plays v + 2 + 1))"
    by (simp_all add: closes_iff)
  then show ?thesis
    by (simp add: run_ready_def demo_texts_def demo_examples_def demo_tests_def assms(1)
        demo_correct_answers less_Suc_eq numeral_2_eq_2)
qed

subsection \<open>The example run, field by field\<close>

lemma demo_files:
  "correct_answer (demo_examples ! 0) = ''yes''" "correct_answer (demo_examples ! Suc 0) = ''no''"
  "correct_answer (demo_tests ! 0) = ''no''" "correct_answer (demo_tests ! Suc 0) = ''yes''"
  by (simp_all add: demo_examples_def demo_tests_def correct_answer_def py_split_def)

lemma demo_results_nth:
  "results_of demo_run ! 0 = outcome demo_world ''rhythm'' ''practice'' None 0 demo_examples 0"
  "results_of demo_run ! Suc 0 = outcome demo_world ''rhythm'' ''practice'' None 0 demo_examples (Suc 0)"
  "results_of demo_run ! 2 = outcome demo_world ''rhythm'' ''test'' (Some 2) 2 demo_tests 0"
  "results_of demo_run ! 3 = outcome demo_world ''rhythm'' ''test'' (Some 2) 2 demo_tests (Suc 0)"
  by (simp_all add: demo_results numeral_2_eq_2 numeral_3_eq_3)

lemma demo_responses_recorded:
  "(results_of demo_run ! 0) ''response'' = Some (PStr ''yes'')"
  "(results_of demo_run ! Suc 0) ''response'' = Some (PStr ''yes'')"
  "(results_of demo_run ! 2) ''response'' = Some (PStr ''no'')"
  "(results_of demo_run ! 3) ''response'' = Some (PStr ''NA'')"
  by (simp_all add: demo_results_nth outcome_fields demo_world_def demo_responses)

lemma demo_stimuli_recorded:
  "(results_of demo_run ! 0) ''stimulus'' = Some (PStr ''audio/rhythm_example1_identical.wav'')"
  "(results_of demo_run ! Suc 0) ''stimulus'' = Some (PStr ''audio/rhythm_example2_different.wav'')"
  "(results_of demo_run ! 2) ''stimulus'' = Some (PStr ''audio/rhythm_test01_different.wav'')"
  "(results_of demo_run ! 3) ''stimulus'' = Some (PStr ''audio/rhythm_test07_identical.wav'')"
  by (simp_all add: demo_results_nth outcome_fields demo_examples_def demo_tests_def)

lemma demo_accuracy_recorded:
  "(results_of demo_run ! 3) ''accuracy'' = Some (PInt 99)"
  by (simp add: demo_results_nth outcome_fields demo_world_def demo_responses demo_tests_def
      demo_correct_answers accuracy_def)

subsection \<open>Recorded times\<close>

lemma run_result_times:
  assumes "k < n + m"
  shows "((map (outcome w test_type phase1 limit1 0 xs) [0..<n]
           @ map (outcome w test_type phase2 limit2 n ys) [0..<m]) ! k) ''start_time''
         = Some (PStr (strftime_HMS (utc_offset w) (now w (ticks w))))"
    and "((map (outcome w test_type phase1 limit1 0 xs) [0..<n]
           @ map (outcome w test_type phase2 limit2 n ys) [0..<m]) ! k) ''end_time''
         = Some (PStr (strftime_HMS (utc_offset w) (now w (ticks w + 1 + k))))"
    and "((map (outcome w test_type phase1 limit1 0 xs) [0..<n]
           @ map (outcome w test_type phase2 limit2 n ys) [0..<m]) ! k) ''duration''
         = Some (PStr (format_duration (now w (ticks w + 1 + k) - now w (ticks w))))"
  by (cases rule: nth_two_maps_cases[OF assms, where f = "outcome w test_type phase1 limit1 0 xs"
        and g = "outcome w test_type phase2 limit2 n ys"]; simp add: outcome_fields add.assoc)+

lemma demo_times_recorded:
  "(results_of demo_run ! 0) ''start_time'' = Some (PStr ''10:00:00'')"
  "(results_of demo_run ! Suc 0) ''start_time'' = Some (PStr ''10:00:00'')"
  "(results_of demo_run ! 0) ''end_time'' = Some (PStr ''10:07:42'')"
  "(results_of demo_run ! Suc 0) ''end_time'' = Some (PStr ''10:15:24'')"
  by (simp_all add: demo_results_nth outcome_fields demo_world_def strftime_HMS_def
      format_02d_def str_nat.simps)

subsection \<open>Catalogue loading\<close>

lemma os_path_join_audio:
  "os_path_join ''audio'' (CHR ''m'' # f) = ''audio/'' @ CHR ''m'' # f"
  by (simp add: os_path_join_def suffix_to_prefix)

subsection \<open>What the screen shows\<close>

lemma shown_instructions_append:
  "shown_instructions (xs @ ys) = shown_instructions xs @ shown_instructions ys"
  by (simp add: shown_instructions_def)

lemma shown_instructions_simps:
  "shown_instructions [] = []"
  "shown_instructions (Instructions shown # es) = shown # shown_instructions es"
  "shown_instructions (Feedback said # es) = shown_instructions es"
  "shown_instructions (Sound_play played # es) = shown_instructions es"
  "shown_instructions (Trial_screen a b c d e # es) = shown_instructions es"
  by (simp_all add: shown_instructions_def)

lemma shown_instructions_concat:
  "shown_instructions (concat (map f js)) = concat (map (\<lambda>j. shown_instructions (f j)) js)"
  by (induction js) (simp_all add: shown_instructions_append shown_instructions_simps)

lemma shown_instructions_trial_events:
  "shown_instructions (trial_events test_type img total_trials j name) = []"
  by (simp add: trial_events_def shown_instructions_simps)

lemma map_over_indices: "map (\<lambda>j. f (xs ! j)) [0..<length xs] = map f xs"
  by (rule nth_equalityI) simp_all

subsection \<open>Files\<close>

lemma appended_lines_at:
  "appended_lines fs name written name =
     (if written = [] then fs name else Some (content_of fs name @ concat written))"
  unfolding appended_lines_def
proof (induction written arbitrary: fs)
  case Nil
  then show ?case by simp
next
  case (Cons line written)
  show ?case
    by (simp add: Cons.IH) (simp add: appended_def content_of_def)
qed

lemma appended_lines_other:
  "other \<noteq> name \<Longrightarrow> appended_lines fs name written other = fs other"
  unfolding appended_lines_def
  by (induction written arbitrary: fs) (simp_all add: appended_def)

lemma join_commas_no_newline:
  assumes "\<forall>c\<in>set columns. CHR 0x0A \<notin> set c"
  shows "CHR 0x0A \<notin> set (join_commas columns)"
  using assms by (induction columns rule: join_commas.induct) auto

lemma append_result_to_csv_steps:
  assumes "result ''phase'' = Some phase"
    and "format_fields result result_columns = Inr columns"
  shows "append_result_to_csv result practice_filename test_filename participant_info w =
     Inr (file_close (if phase = PStr ''practice'' then practice_filename else test_filename)
           (file_write (if phase = PStr ''practice'' then practice_filename else test_filename)
              (csv_line participant_info result)
              (open_append (if phase = PStr ''practice'' then practice_filename else test_filename)
                 w)))"
  by (simp add: append_result_to_csv_def assms csv_line_def Let_def)

lemma scoped_write_files:
  "files (file_close name (file_write name written (open_append name w)))
     = (files w)(name \<mapsto> content_of (files w) name @ written)"
  by (cases "files w name")
     (auto simp: file_close_def file_write_def open_append_def content_of_def)

lemma scoped_write_opened:
  "opened (file_close name (file_write name written (open_append name w))) = opened w"
  by (simp add: file_close_def file_write_def open_append_def)

lemma demo_last_row:
  "(results_of demo_run ! 3) ''phase'' = Some (PStr ''test'')"
  "format_fields (results_of demo_run ! 3) result_columns =
     Inr [''2'', ''rhythm'', ''test'', ''audio/rhythm_test07_identical.wav'', ''NA'', ''yes'',
          ''99'', ''10:00:00'', ''10:30:48'', ''00:30:48'']"
  by (simp_all add: demo_results_nth outcome_def format_fields_trial_result trial_result_phase
      Let_def demo_world_def demo_responses demo_tests_def demo_correct_answers accuracy_def
      str_int_def str_nat.simps strftime_HMS_def format_02d_def format_duration_def
      py_divmod_def py_int_def)

lemma run_ready_iff:
  "run_ready test_type ex ts instruction_texts w
   \<longleftrightarrow> (\<exists>results w'. musical_ear_test test_type ex ts instruction_texts pf tf img p w
                       = Some (Inr (results, w')))"
proof
  assume "run_ready test_type ex ts instruction_texts w"
  from run_ready_returns[OF this, of pf tf img p]
  show "\<exists>results w'. musical_ear_test test_type ex ts instruction_texts pf tf img p w
                       = Some (Inr (results, w'))"
    by blast
next
  assume "\<exists>results w'. musical_ear_test test_type ex ts instruction_texts pf tf img p w
                       = Some (Inr (results, w'))"
  then show "run_ready test_type ex ts instruction_texts w"
    using run_returned_ready by blast
qed

section \<open>The claims\<close>

subsection \<open>C2: the ground truth comes from the identifier\<close>

text \<open>
  C2. The ground truth of an item is \<open>''yes''\<close> (same) exactly when its identifier ends
  with an identical marker: the identifier is some text that is empty or ends with an
  underscore, then \<open>ident\<close>, then text without an underscore; that is, the piece after
  the last underscore starts with \<open>ident\<close>. Otherwise it is \<open>''no''\<close>. The value is a
  function of the identifier only: no trial number, response or earlier item enters it.
  The program applies it to the path of the file; for a file name with an underscore the
  folder in front makes no difference.
\<close>

theorem ground_truth_of_identifier:
  "correct_answer item =
     (if (\<exists>before after. item = before @ ''ident'' @ after \<and> CHR ''_'' \<notin> set after
            \<and> (before = [] \<or> last before = CHR ''_''))
      then ''yes'' else ''no'')
   \<and> (CHR ''_'' \<in> set filename \<longrightarrow>
        correct_answer (os_path_join folder filename) = correct_answer filename)"
  using correct_answer_marker[of item] correct_answer_path[of filename folder] by blast

text \<open>Scenario B's item in the folder of the short version, and scenario A's item.\<close>

theorem ground_truth_of_identifier_witness:
  "correct_answer (os_path_join ''psd_audio'' ''rhythm_test07_identical.wav'') = ''yes''
   \<and> correct_answer ''melody_test03_different.wav'' = ''no''"
proof -
  note T = ground_truth_of_identifier[where item = "''rhythm_test07_identical.wav''"
      and filename = "''rhythm_test07_identical.wav''" and folder = "''psd_audio''"]
  have marked: "\<exists>before after. ''rhythm_test07_identical.wav'' = before @ ''ident'' @ after
      \<and> CHR ''_'' \<notin> set after \<and> (before = [] \<or> last before = CHR ''_'')"
    by (rule exI[of _ "''rhythm_test07_''"], rule exI[of _ "''ical.wav''"]) simp
  from T marked have 1: "correct_answer ''rhythm_test07_identical.wav'' = ''yes''"
    by (simp only: if_True)
  from T have 2: "correct_answer (os_path_join ''psd_audio'' ''rhythm_test07_identical.wav'')
      = correct_answer ''rhythm_test07_identical.wav''" by simp
  have 3: "correct_answer ''melody_test03_different.wav'' = ''no''"
    by (simp add: correct_answer_def py_split_def)
  from 1 2 3 show ?thesis by simp
qed

subsection \<open>C4: what response collection returns\<close>

text \<open>
  C4. The response that \<^verbatim>\<open>play_stimulus_and_display_prompt\<close> returns is the one the
  response loop collects from the window it opens. Without a time limit (practice) it is
  never \<open>''NA''\<close>: when the first round with a \<open>y\<close> or \<open>n\<close> key is round \<open>k\<close>, the
  function returns the label of the first such key of that round, and when no such key
  ever arrives it does not return at all. With a time limit, when the countdown is
  positive at the rounds before \<open>n\<close> and has reached zero at round \<open>n\<close>, the function
  returns; it returns \<open>''NA''\<close> exactly when none of the rounds before \<open>n\<close> saw a \<open>y\<close> or
  \<open>n\<close> key, and otherwise the label of the first such key of the first round that saw
  one, whatever was pressed later.
\<close>

theorem response_window:
  "map_option fst (play_stimulus_and_display_prompt stimulus prompt_text time_limit trial_number
       base_image_path total_trials test_type w) = collect_response time_limit (windows w (plays w))
   \<and> collect_response None env \<noteq> Some ''NA''
   \<and> ((\<forall>j<k. getKeys [''y'', ''n''] (env_keys env j) = []) \<longrightarrow>
        getKeys [''y'', ''n''] (env_keys env k) = key # rest \<longrightarrow>
        collect_response None env = Some (if key = ''y'' then ''yes'' else ''no''))
   \<and> ((\<forall>j. getKeys [''y'', ''n''] (env_keys env j) = []) \<longrightarrow> collect_response None env = None)
   \<and> ((\<forall>j<n. limit - env_elapsed env j > 0) \<longrightarrow> limit - env_elapsed env n \<le> 0 \<longrightarrow>
        (\<exists>r. collect_response (Some limit) env = Some r
           \<and> (r = ''NA'' \<longleftrightarrow> (\<forall>j<n. getKeys [''y'', ''n''] (env_keys env j) = []))
           \<and> (\<forall>m<n. \<forall>pressed later.
                 (\<forall>j<m. getKeys [''y'', ''n''] (env_keys env j) = []) \<and>
                 getKeys [''y'', ''n''] (env_keys env m) = pressed # later \<longrightarrow>
                 r = (if pressed = ''y'' then ''yes'' else ''no''))))"
proof (intro conjI impI)
  show "map_option fst (play_stimulus_and_display_prompt stimulus prompt_text time_limit
       trial_number base_image_path total_trials test_type w)
       = collect_response time_limit (windows w (plays w))"
    by (rule play_response)
next
  show "collect_response None env \<noteq> Some ''NA''"
  proof
    assume "collect_response None env = Some ''NA''"
    then show False
      by (cases rule: collect_response_cases) (auto simp: window_open_def split: if_splits)
  qed
next
  assume "\<forall>j<k. getKeys [''y'', ''n''] (env_keys env j) = []"
    and "getKeys [''y'', ''n''] (env_keys env k) = key # rest"
  then show "collect_response None env = Some (if key = ''y'' then ''yes'' else ''no'')"
    by (intro collect_response_key[where k = k and rest = rest]) (auto simp: window_open_def)
next
  assume silent: "\<forall>j. getKeys [''y'', ''n''] (env_keys env j) = []"
  have "\<not> closes None env"
    by (simp add: closes_def window_open_def silent)
  then show "collect_response None env = None"
    by (simp add: closes_iff)
next
  assume op: "\<forall>j<n. limit - env_elapsed env j > 0" and cl: "limit - env_elapsed env n \<le> 0"
  let ?nokey = "\<lambda>j. getKeys [''y'', ''n''] (env_keys env j) = []"
  show "\<exists>r. collect_response (Some limit) env = Some r
           \<and> (r = ''NA'' \<longleftrightarrow> (\<forall>j<n. ?nokey j))
           \<and> (\<forall>m<n. \<forall>pressed later.
                 (\<forall>j<m. ?nokey j) \<and>
                 getKeys [''y'', ''n''] (env_keys env m) = pressed # later \<longrightarrow>
                 r = (if pressed = ''y'' then ''yes'' else ''no''))"
  proof (cases "\<forall>j<n. ?nokey j")
    case True
    have "collect_response (Some limit) env = Some ''NA''"
      by (rule collect_response_timeout[where k = n]) (use op cl True in \<open>auto simp: window_open_def\<close>)
    with True show ?thesis by auto
  next
    case False
    then obtain m0 where "m0 < n \<and> \<not> ?nokey m0" by blast
    then obtain m where m: "m < n \<and> \<not> ?nokey m"
      and least: "\<And>j. j < m \<Longrightarrow> \<not> (j < n \<and> \<not> ?nokey j)"
      by (rule first_round[where P = "\<lambda>m. m < n \<and> \<not> ?nokey m"]) blast
    from m obtain key1 rest1 where k1: "getKeys [''y'', ''n''] (env_keys env m) = key1 # rest1"
      by (cases "getKeys [''y'', ''n''] (env_keys env m)") auto
    have quiet: "\<And>j. j < m \<Longrightarrow> ?nokey j" using least m by auto
    have r: "collect_response (Some limit) env = Some (if key1 = ''y'' then ''yes'' else ''no'')"
      by (rule collect_response_key[where k = m and rest = rest1])
         (use op m quiet k1 in \<open>auto simp: window_open_def\<close>)
    have uniq: "m' = m" if "m' < n" "\<forall>j<m'. ?nokey j"
      "getKeys [''y'', ''n''] (env_keys env m') = pressed # later" for m' pressed later
    proof (rule ccontr)
      assume "m' \<noteq> m"
      then consider "m' < m" | "m < m'" by linarith
      then show False
      proof cases
        case 1
        with quiet that(3) show False by auto
      next
        case 2
        with that(2) k1 show False by auto
      qed
    qed
    show ?thesis
    proof (intro exI[of _ "if key1 = ''y'' then ''yes'' else ''no''"] conjI allI impI)
      show "collect_response (Some limit) env = Some (if key1 = ''y'' then ''yes'' else ''no'')"
        by (rule r)
    next
      show "((if key1 = ''y'' then ''yes'' else ''no'') = ''NA'') = (\<forall>j<n. ?nokey j)"
        using False by auto
    next
      fix m' pressed later
      assume "m' < n" and h: "(\<forall>j<m'. ?nokey j) \<and>
                 getKeys [''y'', ''n''] (env_keys env m') = pressed # later"
      with uniq[of m' pressed later] have "m' = m" by blast
      with h k1 show "(if key1 = ''y'' then ''yes'' else ''no'')
          = (if pressed = ''y'' then ''yes'' else ''no'')" by simp
    qed
  qed
qed

text \<open>
  An instance: a window whose second round sees the keys space, n, y returns \<open>''no''\<close>
  with and without a limit of two seconds; a window that only sees the key q runs out.
\<close>

theorem response_window_witness:
  "collect_response None (demo_windows 2) = Some ''no''
   \<and> collect_response (Some 2) (demo_windows 2) = Some ''no''
   \<and> collect_response (Some 2) (demo_windows 3) = Some ''NA''"
proof -
  have quiet0: "\<forall>j<1. getKeys [''y'', ''n''] (env_keys (demo_windows 2) j) = []"
    by (simp add: demo_windows_def getKeys_def)
  have key1: "getKeys [''y'', ''n''] (env_keys (demo_windows 2) 1) = ''n'' # [''y'']"
    by (simp add: demo_windows_def getKeys_def)
  have op: "\<forall>j<4. 2 - env_elapsed (demo_windows k) j > 0" for k
    by (simp add: demo_windows_def)
  have cl: "2 - env_elapsed (demo_windows k) 4 \<le> 0" for k
    by (simp add: demo_windows_def)
  have silent: "\<forall>j<4. getKeys [''y'', ''n''] (env_keys (demo_windows 3) j) = []"
    by (simp add: demo_windows_def getKeys_def)
  note A = response_window[where env = "demo_windows 2" and k = 1 and key = "''n''"
      and rest = "[''y'']" and limit = 2 and n = 4]
  note B = response_window[where env = "demo_windows 3" and limit = 2 and n = 4]
  from A quiet0 key1 have 1: "collect_response None (demo_windows 2) = Some ''no''" by simp
  from A op[of 2] cl[of 2] obtain r where r: "collect_response (Some 2) (demo_windows 2) = Some r"
    and pick: "\<forall>m<4. \<forall>pressed later.
                 (\<forall>j<m. getKeys [''y'', ''n''] (env_keys (demo_windows 2) j) = []) \<and>
                 getKeys [''y'', ''n''] (env_keys (demo_windows 2) m) = pressed # later \<longrightarrow>
                 r = (if pressed = ''y'' then ''yes'' else ''no'')"
    by blast
  from pick[rule_format, of 1 "''n''" "[''y'']"] quiet0 key1 have "r = ''no''" by simp
  with r have 2: "collect_response (Some 2) (demo_windows 2) = Some ''no''" by simp
  from B op[of 3] cl[of 3] silent have 3: "collect_response (Some 2) (demo_windows 3) = Some ''NA''"
    by auto
  from 1 2 3 show ?thesis by simp
qed

subsection \<open>C1: the accuracy code\<close>

text \<open>
  C1. A sub-test returns exactly when it is ready to run, and in every run that returns,
  each recorded trial has an accuracy code that is one of 0, 1 and 99; it is 1 exactly
  when the response equals the ground truth of the stimulus, 99 exactly when the
  response is \<open>''NA''\<close>, and 0 in every other case. The no-response case has precedence:
  the code is what testing for \<open>''NA''\<close> first and for equality second gives, and a
  trial with no response is never scored 1. The program writes the two tests in the
  other order; on a trial that makes no difference, because the ground truth of a
  stimulus is \<open>''yes''\<close> or \<open>''no''\<close> and never \<open>''NA''\<close>.
\<close>

theorem accuracy_of_trials:
  "(run_ready test_type example_files test_files instruction_texts w
      \<longleftrightarrow> (\<exists>results w'.
             musical_ear_test test_type example_files test_files instruction_texts
               practice_output_filename test_output_filename base_image_path participant_info w
             = Some (Inr (results, w'))))
   \<and> (\<forall>results w'.
        musical_ear_test test_type example_files test_files instruction_texts
          practice_output_filename test_output_filename base_image_path participant_info w
        = Some (Inr (results, w'))
        \<longrightarrow> (\<forall>r\<in>set results. \<exists>stimulus response code.
            r ''stimulus'' = Some (PStr stimulus)
            \<and> r ''response'' = Some (PStr response)
            \<and> r ''accuracy'' = Some (PInt code)
            \<and> code = accuracy response (correct_answer stimulus)
            \<and> code \<in> {0, 1, 99}
            \<and> (code = 1 \<longleftrightarrow> response = correct_answer stimulus)
            \<and> (code = 99 \<longleftrightarrow> response = ''NA'')
            \<and> (code = 0 \<longleftrightarrow> response \<noteq> correct_answer stimulus \<and> response \<noteq> ''NA'')
            \<and> code = (if response = ''NA'' then 99
                       else if response = correct_answer stimulus then 1 else 0)
            \<and> (response = ''NA'' \<longrightarrow> code \<noteq> 1)))"
proof (rule conjI)
  show "run_ready test_type example_files test_files instruction_texts w
      \<longleftrightarrow> (\<exists>results w'.
             musical_ear_test test_type example_files test_files instruction_texts
               practice_output_filename test_output_filename base_image_path participant_info w
             = Some (Inr (results, w')))"
    by (rule run_ready_iff)
next
  have scored: "\<exists>stimulus response code.
            r ''stimulus'' = Some (PStr stimulus)
            \<and> r ''response'' = Some (PStr response)
            \<and> r ''accuracy'' = Some (PInt code)
            \<and> code = accuracy response (correct_answer stimulus)
            \<and> code \<in> {0, 1, 99}
            \<and> (code = 1 \<longleftrightarrow> response = correct_answer stimulus)
            \<and> (code = 99 \<longleftrightarrow> response = ''NA'')
            \<and> (code = 0 \<longleftrightarrow> response \<noteq> correct_answer stimulus \<and> response \<noteq> ''NA'')
            \<and> code = (if response = ''NA'' then 99
                       else if response = correct_answer stimulus then 1 else 0)
            \<and> (response = ''NA'' \<longrightarrow> code \<noteq> 1)"
    if "r = outcome w test_type phase limit before xs j" for r phase limit before xs j
    unfolding that outcome_fields
    using accuracy_cases[OF correct_answer_not_NA[of "xs ! j"]]
      accuracy_no_response_first[OF correct_answer_not_NA[of "xs ! j"]]
    by blast
  show "\<forall>results w'.
        musical_ear_test test_type example_files test_files instruction_texts
          practice_output_filename test_output_filename base_image_path participant_info w
        = Some (Inr (results, w'))
        \<longrightarrow> (\<forall>r\<in>set results. \<exists>stimulus response code.
            r ''stimulus'' = Some (PStr stimulus)
            \<and> r ''response'' = Some (PStr response)
            \<and> r ''accuracy'' = Some (PInt code)
            \<and> code = accuracy response (correct_answer stimulus)
            \<and> code \<in> {0, 1, 99}
            \<and> (code = 1 \<longleftrightarrow> response = correct_answer stimulus)
            \<and> (code = 99 \<longleftrightarrow> response = ''NA'')
            \<and> (code = 0 \<longleftrightarrow> response \<noteq> correct_answer stimulus \<and> response \<noteq> ''NA'')
            \<and> code = (if response = ''NA'' then 99
                       else if response = correct_answer stimulus then 1 else 0)
            \<and> (response = ''NA'' \<longrightarrow> code \<noteq> 1))"
  proof (intro allI impI ballI)
    fix results w' r
    assume ret: "musical_ear_test test_type example_files test_files instruction_texts
          practice_output_filename test_output_filename base_image_path participant_info w
        = Some (Inr (results, w'))"
    from run_returned[OF ret]
    have results: "results = map (outcome w test_type ''practice'' None 0 example_files)
                       [0..<length example_files]
                     @ map (outcome w test_type ''test'' (Some 2) (length example_files) test_files)
                         [0..<length test_files]"
      by blast
    assume "r \<in> set results"
    then have "r \<in> set (map (outcome w test_type ''practice'' None 0 example_files)
                       [0..<length example_files]
                     @ map (outcome w test_type ''test'' (Some 2) (length example_files) test_files)
                         [0..<length test_files])"
      unfolding results .
    then show "\<exists>stimulus response code.
            r ''stimulus'' = Some (PStr stimulus)
            \<and> r ''response'' = Some (PStr response)
            \<and> r ''accuracy'' = Some (PInt code)
            \<and> code = accuracy response (correct_answer stimulus)
            \<and> code \<in> {0, 1, 99}
            \<and> (code = 1 \<longleftrightarrow> response = correct_answer stimulus)
            \<and> (code = 99 \<longleftrightarrow> response = ''NA'')
            \<and> (code = 0 \<longleftrightarrow> response \<noteq> correct_answer stimulus \<and> response \<noteq> ''NA'')
            \<and> code = (if response = ''NA'' then 99
                       else if response = correct_answer stimulus then 1 else 0)
            \<and> (response = ''NA'' \<longrightarrow> code \<noteq> 1)"
      by (cases rule: in_two_maps) (rule scored, assumption)+
  qed
qed

text \<open>
  In the example run the fourth trial got no response to an identical pair and is
  scored 99, not 1, and the second got the wrong answer and is scored 0.
\<close>

theorem accuracy_of_trials_witness:
  "(results_of demo_run ! 3) ''response'' = Some (PStr ''NA'')
   \<and> (results_of demo_run ! 3) ''accuracy'' = Some (PInt 99)
   \<and> (results_of demo_run ! 3) ''accuracy'' \<noteq> Some (PInt 1)
   \<and> (results_of demo_run ! Suc 0) ''response'' = Some (PStr ''yes'')
   \<and> (results_of demo_run ! Suc 0) ''accuracy'' = Some (PInt 0)"
proof -
  note T = accuracy_of_trials[of "''rhythm''" demo_examples demo_tests demo_texts demo_world
      "''practice.csv''" "''test.csv''" "''pics''" demo_info]
  from T[THEN conjunct1] demo_ready
  obtain results w' where run: "demo_run = Some (Inr (results, w'))"
    unfolding demo_run_def by blast
  from T[THEN conjunct2, rule_format, OF run[unfolded demo_run_def]]
  have scored: "\<forall>r\<in>set results. \<exists>stimulus response code.
            r ''stimulus'' = Some (PStr stimulus)
            \<and> r ''response'' = Some (PStr response)
            \<and> r ''accuracy'' = Some (PInt code)
            \<and> code = accuracy response (correct_answer stimulus)
            \<and> code \<in> {0, 1, 99}
            \<and> (code = 1 \<longleftrightarrow> response = correct_answer stimulus)
            \<and> (code = 99 \<longleftrightarrow> response = ''NA'')
            \<and> (code = 0 \<longleftrightarrow> response \<noteq> correct_answer stimulus \<and> response \<noteq> ''NA'')
            \<and> code = (if response = ''NA'' then 99
                       else if response = correct_answer stimulus then 1 else 0)
            \<and> (response = ''NA'' \<longrightarrow> code \<noteq> 1)"
    by blast
  have r: "results = results_of demo_run" by (simp add: results_of_def run)
  have "results_of demo_run ! 3 \<in> set results" "results_of demo_run ! Suc 0 \<in> set results"
    unfolding r by (simp_all add: demo_results)
  from scored[rule_format, OF this(1)] scored[rule_format, OF this(2)]
  show ?thesis
    by (auto simp: demo_responses_recorded demo_stimuli_recorded demo_correct_answers)
qed

subsection \<open>C7: the field named correct\<close>

text \<open>
  C7, as the program has it. A sub-test returns exactly when it is ready to run, and in
  every run that returns, the field \<open>correct\<close> of each recorded trial is the ground
  truth label of its stimulus, the string \<open>''yes''\<close> or \<open>''no''\<close>, whatever the response
  was, and not a boolean. Whether the response equals the ground truth is recorded in
  the accuracy code only, which is 1 exactly then, 99 exactly when there was no
  response, and 0 exactly when the response was a wrong answer: a trial with no response
  to an identical pair has the field \<open>correct\<close> \<open>''yes''\<close> and the accuracy code 99.
\<close>

theorem correct_field_is_ground_truth:
  "(run_ready test_type example_files test_files instruction_texts w
      \<longleftrightarrow> (\<exists>results w'.
             musical_ear_test test_type example_files test_files instruction_texts
               practice_output_filename test_output_filename base_image_path participant_info w
             = Some (Inr (results, w'))))
   \<and> (\<forall>results w'.
        musical_ear_test test_type example_files test_files instruction_texts
          practice_output_filename test_output_filename base_image_path participant_info w
        = Some (Inr (results, w'))
        \<longrightarrow> (\<forall>r\<in>set results. \<exists>stimulus response.
            r ''stimulus'' = Some (PStr stimulus)
            \<and> r ''response'' = Some (PStr response)
            \<and> r ''correct'' = Some (PStr (correct_answer stimulus))
            \<and> (r ''correct'' = Some (PStr ''yes'') \<or> r ''correct'' = Some (PStr ''no''))
            \<and> (r ''accuracy'' = Some (PInt 1) \<longleftrightarrow> response = correct_answer stimulus)
            \<and> (r ''accuracy'' = Some (PInt 99) \<longleftrightarrow> response = ''NA'')
            \<and> (r ''accuracy'' = Some (PInt 0)
                 \<longleftrightarrow> response \<noteq> correct_answer stimulus \<and> response \<noteq> ''NA'')
            \<and> (\<forall>b. r ''correct'' \<noteq> Some (PBool b))))"
proof (rule conjI)
  show "run_ready test_type example_files test_files instruction_texts w
      \<longleftrightarrow> (\<exists>results w'.
             musical_ear_test test_type example_files test_files instruction_texts
               practice_output_filename test_output_filename base_image_path participant_info w
             = Some (Inr (results, w')))"
    by (rule run_ready_iff)
next
  have held: "\<exists>stimulus response.
            r ''stimulus'' = Some (PStr stimulus)
            \<and> r ''response'' = Some (PStr response)
            \<and> r ''correct'' = Some (PStr (correct_answer stimulus))
            \<and> (r ''correct'' = Some (PStr ''yes'') \<or> r ''correct'' = Some (PStr ''no''))
            \<and> (r ''accuracy'' = Some (PInt 1) \<longleftrightarrow> response = correct_answer stimulus)
            \<and> (r ''accuracy'' = Some (PInt 99) \<longleftrightarrow> response = ''NA'')
            \<and> (r ''accuracy'' = Some (PInt 0)
                 \<longleftrightarrow> response \<noteq> correct_answer stimulus \<and> response \<noteq> ''NA'')
            \<and> (\<forall>b. r ''correct'' \<noteq> Some (PBool b))"
    if "r = outcome w test_type phase limit before xs j" for r phase limit before xs j
    unfolding that outcome_fields
    using accuracy_cases[OF correct_answer_not_NA[of "xs ! j"]] correct_answer_yes_no[of "xs ! j"]
    by auto
  show "\<forall>results w'.
        musical_ear_test test_type example_files test_files instruction_texts
          practice_output_filename test_output_filename base_image_path participant_info w
        = Some (Inr (results, w'))
        \<longrightarrow> (\<forall>r\<in>set results. \<exists>stimulus response.
            r ''stimulus'' = Some (PStr stimulus)
            \<and> r ''response'' = Some (PStr response)
            \<and> r ''correct'' = Some (PStr (correct_answer stimulus))
            \<and> (r ''correct'' = Some (PStr ''yes'') \<or> r ''correct'' = Some (PStr ''no''))
            \<and> (r ''accuracy'' = Some (PInt 1) \<longleftrightarrow> response = correct_answer stimulus)
            \<and> (r ''accuracy'' = Some (PInt 99) \<longleftrightarrow> response = ''NA'')
            \<and> (r ''accuracy'' = Some (PInt 0)
                 \<longleftrightarrow> response \<noteq> correct_answer stimulus \<and> response \<noteq> ''NA'')
            \<and> (\<forall>b. r ''correct'' \<noteq> Some (PBool b)))"
  proof (intro allI impI ballI)
    fix results w' r
    assume ret: "musical_ear_test test_type example_files test_files instruction_texts
          practice_output_filename test_output_filename base_image_path participant_info w
        = Some (Inr (results, w'))"
    from run_returned[OF ret]
    have results: "results = map (outcome w test_type ''practice'' None 0 example_files)
                       [0..<length example_files]
                     @ map (outcome w test_type ''test'' (Some 2) (length example_files) test_files)
                         [0..<length test_files]"
      by blast
    assume "r \<in> set results"
    then have "r \<in> set (map (outcome w test_type ''practice'' None 0 example_files)
                       [0..<length example_files]
                     @ map (outcome w test_type ''test'' (Some 2) (length example_files) test_files)
                         [0..<length test_files])"
      unfolding results .
    then show "\<exists>stimulus response.
            r ''stimulus'' = Some (PStr stimulus)
            \<and> r ''response'' = Some (PStr response)
            \<and> r ''correct'' = Some (PStr (correct_answer stimulus))
            \<and> (r ''correct'' = Some (PStr ''yes'') \<or> r ''correct'' = Some (PStr ''no''))
            \<and> (r ''accuracy'' = Some (PInt 1) \<longleftrightarrow> response = correct_answer stimulus)
            \<and> (r ''accuracy'' = Some (PInt 99) \<longleftrightarrow> response = ''NA'')
            \<and> (r ''accuracy'' = Some (PInt 0)
                 \<longleftrightarrow> response \<noteq> correct_answer stimulus \<and> response \<noteq> ''NA'')
            \<and> (\<forall>b. r ''correct'' \<noteq> Some (PBool b))"
      by (cases rule: in_two_maps) (rule held, assumption)+
  qed
qed

text \<open>
  The first trial of the example run, answered yes on an identical pair, and the fourth,
  not answered, on an identical pair too.
\<close>

theorem correct_field_is_ground_truth_witness:
  "(results_of demo_run ! 0) ''response'' = Some (PStr ''yes'')
   \<and> (results_of demo_run ! 0) ''correct'' = Some (PStr ''yes'')
   \<and> (results_of demo_run ! 0) ''accuracy'' = Some (PInt 1)
   \<and> (results_of demo_run ! 3) ''response'' = Some (PStr ''NA'')
   \<and> (results_of demo_run ! 3) ''correct'' = Some (PStr ''yes'')
   \<and> (results_of demo_run ! 3) ''accuracy'' = Some (PInt 99)"
proof -
  note T = correct_field_is_ground_truth[of "''rhythm''" demo_examples demo_tests demo_texts
      demo_world "''practice.csv''" "''test.csv''" "''pics''" demo_info]
  from T[THEN conjunct1] demo_ready
  obtain results w' where run: "demo_run = Some (Inr (results, w'))"
    unfolding demo_run_def by blast
  from T[THEN conjunct2, rule_format, OF run[unfolded demo_run_def]]
  have held: "\<forall>r\<in>set results. \<exists>stimulus response.
            r ''stimulus'' = Some (PStr stimulus)
            \<and> r ''response'' = Some (PStr response)
            \<and> r ''correct'' = Some (PStr (correct_answer stimulus))
            \<and> (r ''correct'' = Some (PStr ''yes'') \<or> r ''correct'' = Some (PStr ''no''))
            \<and> (r ''accuracy'' = Some (PInt 1) \<longleftrightarrow> response = correct_answer stimulus)
            \<and> (r ''accuracy'' = Some (PInt 99) \<longleftrightarrow> response = ''NA'')
            \<and> (r ''accuracy'' = Some (PInt 0)
                 \<longleftrightarrow> response \<noteq> correct_answer stimulus \<and> response \<noteq> ''NA'')
            \<and> (\<forall>b. r ''correct'' \<noteq> Some (PBool b))"
    by blast
  have r: "results = results_of demo_run" by (simp add: results_of_def run)
  have "results_of demo_run ! 0 \<in> set results" "results_of demo_run ! 3 \<in> set results"
    unfolding r by (simp_all add: demo_results)
  from held[rule_format, OF this(1)] held[rule_format, OF this(2)]
  show ?thesis
    by (auto simp: demo_responses_recorded demo_stimuli_recorded demo_correct_answers)
qed

text \<open>
  C7 as stated makes the field the boolean \<open>response = ground truth\<close>, false for a trial
  with no response. The fourth trial of the example run got no response to an identical
  pair: its field \<open>correct\<close> is the string \<open>''yes''\<close>, not the boolean false, and its
  accuracy code is 99.
\<close>

theorem correct_field_counterexample:
  "(results_of demo_run ! 3) ''stimulus'' = Some (PStr ''audio/rhythm_test07_identical.wav'')
   \<and> (results_of demo_run ! 3) ''response'' = Some (PStr ''NA'')
   \<and> (results_of demo_run ! 3) ''correct'' = Some (PStr ''yes'')
   \<and> (results_of demo_run ! 3) ''correct'' \<noteq> Some (PBool False)
   \<and> (results_of demo_run ! 3) ''accuracy'' = Some (PInt 99)"
  by (simp add: demo_responses_recorded demo_stimuli_recorded demo_accuracy_recorded)
     (simp add: demo_results_nth outcome_fields demo_files)

subsection \<open>C10: the shape of the returned list\<close>

text \<open>
  C10. One sub-test run returns exactly when it is ready to run: when the instruction
  texts it looks up are there and every response window closes. The list it returns
  then has one entry per example file followed by one entry per test file: the entries
  of the example files have phase \<open>''practice''\<close> and the trial numbers 1, 2, ... in
  order, the entries of the test files have phase \<open>''test''\<close> and the trial numbers
  1, 2, ... in order, and the stimulus of each entry is the file at its position.
\<close>

theorem results_shape:
  "(run_ready test_type example_files test_files instruction_texts w
      \<longleftrightarrow> (\<exists>results w'.
             musical_ear_test test_type example_files test_files instruction_texts
               practice_output_filename test_output_filename base_image_path participant_info w
             = Some (Inr (results, w'))))
   \<and> (\<forall>results w'.
        musical_ear_test test_type example_files test_files instruction_texts
          practice_output_filename test_output_filename base_image_path participant_info w
        = Some (Inr (results, w'))
        \<longrightarrow> length results = length example_files + length test_files
      \<and> (\<forall>i<length example_files.
            (results ! i) ''phase'' = Some (PStr ''practice'')
            \<and> (results ! i) ''trial'' = Some (PInt (int i + 1))
            \<and> (results ! i) ''stimulus'' = Some (PStr (example_files ! i)))
      \<and> (\<forall>i<length test_files.
            (results ! (length example_files + i)) ''phase'' = Some (PStr ''test'')
            \<and> (results ! (length example_files + i)) ''trial'' = Some (PInt (int i + 1))
            \<and> (results ! (length example_files + i)) ''stimulus'' = Some (PStr (test_files ! i))))"
proof (rule conjI)
  show "run_ready test_type example_files test_files instruction_texts w
      \<longleftrightarrow> (\<exists>results w'.
             musical_ear_test test_type example_files test_files instruction_texts
               practice_output_filename test_output_filename base_image_path participant_info w
             = Some (Inr (results, w')))"
    by (rule run_ready_iff)
next
  show "\<forall>results w'.
        musical_ear_test test_type example_files test_files instruction_texts
          practice_output_filename test_output_filename base_image_path participant_info w
        = Some (Inr (results, w'))
        \<longrightarrow> length results = length example_files + length test_files
      \<and> (\<forall>i<length example_files.
            (results ! i) ''phase'' = Some (PStr ''practice'')
            \<and> (results ! i) ''trial'' = Some (PInt (int i + 1))
            \<and> (results ! i) ''stimulus'' = Some (PStr (example_files ! i)))
      \<and> (\<forall>i<length test_files.
            (results ! (length example_files + i)) ''phase'' = Some (PStr ''test'')
            \<and> (results ! (length example_files + i)) ''trial'' = Some (PInt (int i + 1))
            \<and> (results ! (length example_files + i)) ''stimulus'' = Some (PStr (test_files ! i)))"
  proof (intro allI impI)
    fix results w'
    assume ret: "musical_ear_test test_type example_files test_files instruction_texts
          practice_output_filename test_output_filename base_image_path participant_info w
        = Some (Inr (results, w'))"
    from run_returned[OF ret]
    have results: "results = map (outcome w test_type ''practice'' None 0 example_files)
                       [0..<length example_files]
                     @ map (outcome w test_type ''test'' (Some 2) (length example_files) test_files)
                         [0..<length test_files]"
      by blast
    show "length results = length example_files + length test_files
      \<and> (\<forall>i<length example_files.
            (results ! i) ''phase'' = Some (PStr ''practice'')
            \<and> (results ! i) ''trial'' = Some (PInt (int i + 1))
            \<and> (results ! i) ''stimulus'' = Some (PStr (example_files ! i)))
      \<and> (\<forall>i<length test_files.
            (results ! (length example_files + i)) ''phase'' = Some (PStr ''test'')
            \<and> (results ! (length example_files + i)) ''trial'' = Some (PInt (int i + 1))
            \<and> (results ! (length example_files + i)) ''stimulus'' = Some (PStr (test_files ! i)))"
      unfolding results by (simp add: nth_two_maps outcome_fields)
  qed
qed

text \<open>The example run has two example files and two test files.\<close>

theorem results_shape_witness:
  "length (results_of demo_run) = 4
   \<and> (results_of demo_run ! 1) ''phase'' = Some (PStr ''practice'')
   \<and> (results_of demo_run ! 1) ''trial'' = Some (PInt 2)
   \<and> (results_of demo_run ! 1) ''stimulus'' = Some (PStr ''audio/rhythm_example2_different.wav'')
   \<and> (results_of demo_run ! 2) ''phase'' = Some (PStr ''test'')
   \<and> (results_of demo_run ! 2) ''trial'' = Some (PInt 1)
   \<and> (results_of demo_run ! 2) ''stimulus'' = Some (PStr ''audio/rhythm_test01_different.wav'')"
proof -
  note T = results_shape[of "''rhythm''" demo_examples demo_tests demo_texts demo_world
      "''practice.csv''" "''test.csv''" "''pics''" demo_info]
  from T[THEN conjunct1] demo_ready
  obtain results w' where run: "demo_run = Some (Inr (results, w'))"
    unfolding demo_run_def by blast
  from T[THEN conjunct2, rule_format, OF run[unfolded demo_run_def]]
  have len: "length results = length demo_examples + length demo_tests"
    and practice: "\<forall>i<length demo_examples.
            (results ! i) ''phase'' = Some (PStr ''practice'')
            \<and> (results ! i) ''trial'' = Some (PInt (int i + 1))
            \<and> (results ! i) ''stimulus'' = Some (PStr (demo_examples ! i))"
    and test: "\<forall>i<length demo_tests.
            (results ! (length demo_examples + i)) ''phase'' = Some (PStr ''test'')
            \<and> (results ! (length demo_examples + i)) ''trial'' = Some (PInt (int i + 1))
            \<and> (results ! (length demo_examples + i)) ''stimulus'' = Some (PStr (demo_tests ! i))"
    by blast+
  have r: "results_of demo_run = results" by (simp add: results_of_def run)
  from practice[rule_format, of 1] test[rule_format, of 0] len show ?thesis
    by (simp add: r demo_examples_def demo_tests_def numeral_2_eq_2)
qed

subsection \<open>C5: the recorded start and end times\<close>

text \<open>
  C5, as the program has it. A sub-test returns exactly when it is ready to run, and in
  every run that returns, the field \<open>start_time\<close> of every recorded trial is the time
  of day of the one clock reading taken when the sub-test started, the same for all its
  trials, and the field \<open>end_time\<close> of the trial at position \<open>k\<close> is the time of day of
  the reading taken after that trial's response was collected (the reading number
  \<open>k + 1\<close> of the run).
\<close>

theorem window_timestamps:
  "(run_ready test_type example_files test_files instruction_texts w
      \<longleftrightarrow> (\<exists>results w'.
             musical_ear_test test_type example_files test_files instruction_texts
               practice_output_filename test_output_filename base_image_path participant_info w
             = Some (Inr (results, w'))))
   \<and> (\<forall>results w'.
        musical_ear_test test_type example_files test_files instruction_texts
          practice_output_filename test_output_filename base_image_path participant_info w
        = Some (Inr (results, w'))
        \<longrightarrow> (\<forall>k<length results.
            (results ! k) ''start_time''
              = Some (PStr (strftime_HMS (utc_offset w) (now w (ticks w))))
            \<and> (results ! k) ''end_time''
              = Some (PStr (strftime_HMS (utc_offset w) (now w (ticks w + 1 + k))))))"
proof (rule conjI)
  show "run_ready test_type example_files test_files instruction_texts w
      \<longleftrightarrow> (\<exists>results w'.
             musical_ear_test test_type example_files test_files instruction_texts
               practice_output_filename test_output_filename base_image_path participant_info w
             = Some (Inr (results, w')))"
    by (rule run_ready_iff)
next
  show "\<forall>results w'.
        musical_ear_test test_type example_files test_files instruction_texts
          practice_output_filename test_output_filename base_image_path participant_info w
        = Some (Inr (results, w'))
        \<longrightarrow> (\<forall>k<length results.
            (results ! k) ''start_time''
              = Some (PStr (strftime_HMS (utc_offset w) (now w (ticks w))))
            \<and> (results ! k) ''end_time''
              = Some (PStr (strftime_HMS (utc_offset w) (now w (ticks w + 1 + k)))))"
  proof (rule allI, rule allI, rule impI)
    fix results w'
    assume ret: "musical_ear_test test_type example_files test_files instruction_texts
          practice_output_filename test_output_filename base_image_path participant_info w
        = Some (Inr (results, w'))"
    from run_returned[OF ret]
    have results: "results = map (outcome w test_type ''practice'' None 0 example_files)
                       [0..<length example_files]
                     @ map (outcome w test_type ''test'' (Some 2) (length example_files) test_files)
                         [0..<length test_files]"
      by blast
    show "(\<forall>k<length results.
            (results ! k) ''start_time''
              = Some (PStr (strftime_HMS (utc_offset w) (now w (ticks w))))
            \<and> (results ! k) ''end_time''
              = Some (PStr (strftime_HMS (utc_offset w) (now w (ticks w + 1 + k)))))"
      unfolding results by (simp add: run_result_times)
  qed
qed

text \<open>
  In the example run the sub-test starts at 10:00:00 and a reading is taken every 462
  seconds.
\<close>

theorem window_timestamps_witness:
  "(results_of demo_run ! 0) ''start_time'' = Some (PStr ''10:00:00'')
   \<and> (results_of demo_run ! 0) ''end_time'' = Some (PStr ''10:07:42'')
   \<and> (results_of demo_run ! 3) ''start_time'' = Some (PStr ''10:00:00'')
   \<and> (results_of demo_run ! 3) ''end_time'' = Some (PStr ''10:30:48'')"
proof -
  note T = window_timestamps[of "''rhythm''" demo_examples demo_tests demo_texts demo_world
      "''practice.csv''" "''test.csv''" "''pics''" demo_info]
  from T[THEN conjunct1] demo_ready
  obtain results w' where run: "demo_run = Some (Inr (results, w'))"
    unfolding demo_run_def by blast
  from T[THEN conjunct2, rule_format, OF run[unfolded demo_run_def]]
  have times: "\<forall>k<length results.
            (results ! k) ''start_time''
              = Some (PStr (strftime_HMS (utc_offset demo_world) (now demo_world (ticks demo_world))))
            \<and> (results ! k) ''end_time''
              = Some (PStr (strftime_HMS (utc_offset demo_world)
                   (now demo_world (ticks demo_world + 1 + k))))"
    by blast
  have r: "results = results_of demo_run" by (simp add: results_of_def run)
  have len: "length results = 4" unfolding r by (simp add: demo_results)
  have "0 < length results" "3 < length results" by (simp_all add: len)
  from times[rule_format, OF this(1)] times[rule_format, OF this(2)]
  show ?thesis
    by (simp add: r demo_world_def strftime_HMS_def format_02d_def str_nat.simps)
qed

text \<open>
  C5 as stated makes the start time that of the trial's own response window. In the
  example run the second trial is recorded with the start time 10:00:00, which is the
  first trial's start time too and lies before the end of the first trial (10:07:42),
  so before the second trial's window opened.
\<close>

theorem window_start_counterexample:
  "(results_of demo_run ! Suc 0) ''start_time'' = Some (PStr ''10:00:00'')
   \<and> (results_of demo_run ! 0) ''end_time'' = Some (PStr ''10:07:42'')
   \<and> (results_of demo_run ! Suc 0) ''end_time'' = Some (PStr ''10:15:24'')
   \<and> (results_of demo_run ! 0) ''start_time'' = (results_of demo_run ! Suc 0) ''start_time''"
  by (simp add: demo_times_recorded)

subsection \<open>C8: the elapsed time of a sub-test\<close>

text \<open>
  C8. A sub-test reads the clock once when it starts and once at the end of each trial,
  and the field \<open>duration\<close> of its trial at position \<open>k\<close> is the time from the first of
  these readings to the one taken at the end of the trial. For two sub-tests run one
  after the other this holds for each with its own start: the second returns exactly
  when it is ready to run in the world the first one left, and its durations are counted
  from the first reading taken after the first sub-test returned, whatever the first
  one's readings were. The duration is written as hours, minutes and seconds of its
  whole seconds (rounded down), minutes and seconds below 60, each number padded to two
  digits and the hours written in full; a duration under one second is \<open>00:00:00\<close>.
\<close>

theorem elapsed_since_sub_test_start:
  assumes "musical_ear_test type1 examples1 tests1 instruction_texts
             practice_output_filename test_output_filename base_image_path participant_info w
           = Some (Inr (results1, w1))"
  shows "(\<forall>k<length results1.
            (results1 ! k) ''duration''
              = Some (PStr (format_duration (now w (ticks w + 1 + k) - now w (ticks w)))))
      \<and> ticks w1 = ticks w + 1 + length results1
      \<and> (run_ready type2 examples2 tests2 instruction_texts w1
           \<longleftrightarrow> (\<exists>results2 w2.
                  musical_ear_test type2 examples2 tests2 instruction_texts
                    practice_output_filename test_output_filename base_image_path
                    participant_info w1
                  = Some (Inr (results2, w2))))
      \<and> (\<forall>results2 w2.
            musical_ear_test type2 examples2 tests2 instruction_texts
              practice_output_filename test_output_filename base_image_path participant_info w1
            = Some (Inr (results2, w2))
            \<longrightarrow> (\<forall>k<length results2.
                  (results2 ! k) ''duration''
                    = Some (PStr (format_duration
                        (now w (ticks w + length results1 + 2 + k)
                         - now w (ticks w + length results1 + 1))))))
      \<and> format_duration d =
           format_02d (\<lfloor>d\<rfloor> div 3600) @ '':'' @ format_02d (\<lfloor>d\<rfloor> mod 3600 div 60) @ '':''
             @ format_02d (\<lfloor>d\<rfloor> mod 60)
      \<and> (0 \<le> d \<and> d < 1 \<longrightarrow> format_duration d = ''00:00:00'')"
proof (intro conjI)
  from run_returned[OF assms]
  have results1: "results1 = map (outcome w type1 ''practice'' None 0 examples1)
                       [0..<length examples1]
                     @ map (outcome w type1 ''test'' (Some 2) (length examples1) tests1)
                         [0..<length tests1]"
    and w1: "ticks w1 = ticks w + 1 + length examples1 + length tests1" "now w1 = now w"
    by blast+
  have len: "length results1 = length examples1 + length tests1"
    by (simp add: results1)
  show "\<forall>k<length results1.
            (results1 ! k) ''duration''
              = Some (PStr (format_duration (now w (ticks w + 1 + k) - now w (ticks w))))"
    unfolding results1 by (simp add: run_result_times)
  have idx: "ticks w1 = ticks w + length results1 + 1"
    by (simp add: w1 len)
  then show "ticks w1 = ticks w + 1 + length results1" by simp
  show "run_ready type2 examples2 tests2 instruction_texts w1
           \<longleftrightarrow> (\<exists>results2 w2.
                  musical_ear_test type2 examples2 tests2 instruction_texts
                    practice_output_filename test_output_filename base_image_path
                    participant_info w1
                  = Some (Inr (results2, w2)))"
    by (rule run_ready_iff)
  show "\<forall>results2 w2.
            musical_ear_test type2 examples2 tests2 instruction_texts
              practice_output_filename test_output_filename base_image_path participant_info w1
            = Some (Inr (results2, w2))
            \<longrightarrow> (\<forall>k<length results2.
                  (results2 ! k) ''duration''
                    = Some (PStr (format_duration
                        (now w (ticks w + length results1 + 2 + k)
                         - now w (ticks w + length results1 + 1)))))"
  proof (rule allI, rule allI, rule impI)
    fix results2 w2
    assume ret2: "musical_ear_test type2 examples2 tests2 instruction_texts
              practice_output_filename test_output_filename base_image_path participant_info w1
            = Some (Inr (results2, w2))"
    from run_returned[OF ret2]
    have results2: "results2 = map (outcome w1 type2 ''practice'' None 0 examples2)
                       [0..<length examples2]
                     @ map (outcome w1 type2 ''test'' (Some 2) (length examples2) tests2)
                         [0..<length tests2]"
      by blast
    show "\<forall>k<length results2.
                  (results2 ! k) ''duration''
                    = Some (PStr (format_duration
                        (now w (ticks w + length results1 + 2 + k)
                         - now w (ticks w + length results1 + 1))))"
      unfolding results2 by (simp add: run_result_times w1(2) idx)
  qed
  show "format_duration d =
           format_02d (\<lfloor>d\<rfloor> div 3600) @ '':'' @ format_02d (\<lfloor>d\<rfloor> mod 3600 div 60) @ '':''
             @ format_02d (\<lfloor>d\<rfloor> mod 60)"
    by (rule format_duration_floor)
  show "0 \<le> d \<and> d < 1 \<longrightarrow> format_duration d = ''00:00:00''"
  proof
    assume "0 \<le> d \<and> d < 1"
    then have "\<lfloor>d\<rfloor> = 0" by linarith
    then show "format_duration d = ''00:00:00''"
      by (simp add: format_duration_floor format_02d_def str_nat.simps)
  qed
qed

text \<open>
  The example run twice in a row: the last trial of the first sub-test is recorded at
  00:30:48, the first trial of the second at 00:07:42. A hundred hours are written
  with three digits.
\<close>

theorem elapsed_since_sub_test_start_witness:
  "\<exists>results1 w1 results2 w2.
     demo_run = Some (Inr (results1, w1))
     \<and> musical_ear_test ''rhythm'' demo_examples demo_tests demo_texts
          ''practice.csv'' ''test.csv'' ''pics'' demo_info w1 = Some (Inr (results2, w2))
     \<and> (results1 ! 3) ''duration'' = Some (PStr ''00:30:48'')
     \<and> (results2 ! 0) ''duration'' = Some (PStr ''00:07:42'')
     \<and> format_duration 360000 = ''100:00:00''
     \<and> format_duration (1 / 2) = ''00:00:00''"
proof -
  from run_ready_returns[OF demo_ready, of "''practice.csv''" "''test.csv''" "''pics''" demo_info]
  obtain results1 w1 where run1: "musical_ear_test ''rhythm'' demo_examples demo_tests demo_texts
          ''practice.csv'' ''test.csv'' ''pics'' demo_info demo_world = Some (Inr (results1, w1))"
    and len: "length results1 = length demo_examples + length demo_tests"
    and w1: "windows w1 = windows demo_world"
      "plays w1 = plays demo_world + length demo_examples + length demo_tests"
    by fastforce
  have ready2: "run_ready ''rhythm'' demo_examples demo_tests demo_texts w1"
    by (rule demo_ready_again) (simp_all add: w1 demo_world_def demo_examples_def demo_tests_def)
  note T = elapsed_since_sub_test_start[OF run1, where ?type2.0 = "''rhythm''"
      and ?examples2.0 = demo_examples and ?tests2.0 = demo_tests]
  from T[of 360000] have first: "\<forall>k<length results1.
            (results1 ! k) ''duration'' = Some (PStr (format_duration
                (now demo_world (ticks demo_world + 1 + k) - now demo_world (ticks demo_world))))"
    and hundred: "format_duration 360000 =
           format_02d (\<lfloor>360000::real\<rfloor> div 3600) @ '':''
             @ format_02d (\<lfloor>360000::real\<rfloor> mod 3600 div 60) @ '':''
             @ format_02d (\<lfloor>360000::real\<rfloor> mod 60)"
    by blast+
  from T[of "1 / 2"]
  have "0 \<le> (1 / 2 :: real) \<and> (1 / 2 :: real) < 1 \<longrightarrow> format_duration (1 / 2) = ''00:00:00''"
    by blast
  then have half: "format_duration (1 / 2) = ''00:00:00''" by simp
  from T[of 0] ready2 obtain results2 w2 where run2:
      "musical_ear_test ''rhythm'' demo_examples demo_tests demo_texts
          ''practice.csv'' ''test.csv'' ''pics'' demo_info w1 = Some (Inr (results2, w2))"
    by blast
  from T[of 0] run2 have second: "\<forall>k<length results2.
                  (results2 ! k) ''duration''
                    = Some (PStr (format_duration
                        (now demo_world (ticks demo_world + length results1 + 2 + k)
                         - now demo_world (ticks demo_world + length results1 + 1))))"
    by blast
  from run_ready_returns[OF ready2, of "''practice.csv''" "''test.csv''" "''pics''" demo_info] run2
  have len2: "length results2 = length demo_examples + length demo_tests" by auto
  have n: "length results1 = 4" "length results2 = 4"
    by (simp_all add: len len2 demo_examples_def demo_tests_def)
  have "3 < length results1" "0 < length results2" by (simp_all add: n)
  from first[rule_format, OF this(1)] second[rule_format, OF this(2)]
  have d: "(results1 ! 3) ''duration'' = Some (PStr ''00:30:48'')"
    "(results2 ! 0) ''duration'' = Some (PStr ''00:07:42'')"
    by (simp_all add: n demo_world_def format_duration_def py_divmod_def py_int_def
        format_02d_def str_nat.simps Let_def)
  from hundred have h: "format_duration 360000 = ''100:00:00''"
    by (simp add: format_02d_def str_nat.simps)
  from run1 run2 d h half show ?thesis
    unfolding demo_run_def by blast
qed

subsection \<open>C3: the order of the catalogue\<close>

text \<open>
  C3 says that the test list comes out in increasing trial number whatever the order of
  the directory listing. Three test files numbered 1, 2 and 3, listed in the order
  3, 2, 1: the file numbered 3 goes into the empty list, the file numbered 2 is inserted
  at position 1, which is the end of a list of one element, and the file numbered 1 at
  the front. The list returned is 1, 3, 2.
\<close>

theorem catalogue_order_failing_input:
  "load_audio_files ''audio'' ''melody''
     [''melody_test3_different.wav'', ''melody_test2_identical.wav'',
      ''melody_test1_identical.wav'']
   = Inr ([], [''audio/melody_test1_identical.wav'', ''audio/melody_test3_different.wav'',
               ''audio/melody_test2_identical.wav''])"
  by (simp add: load_audio_files_def trial_number_of_def py_split_def first_digits_def
      is_digit_def int_of_digits_def digit_value_def py_insert_def os_path_join_audio Let_def)

subsection \<open>C6: the result sink\<close>

text \<open>
  C6. A call of \<^verbatim>\<open>append_result_to_csv\<close> with a result that has all its columns
  opens the destination for appending, writes, and closes it again: the practice file
  when the phase of the result is \<open>practice\<close>, the test file for every other phase. The
  destination then holds what it held before (nothing, if it did not exist) followed by
  the line of the result, no other file has changed, and the open handles are those from
  before the call. The line is the participant's three fields and the ten columns of the
  result, joined by commas and ended by a newline; it holds one newline when no field
  holds one. A sub-test returns exactly when it is ready to run, and in a run that
  returns, with two different file names, the practice file has grown by the lines of
  the practice trials in order, the test file by the lines of the test trials in order,
  one line per trial, and nothing else has changed.
\<close>

theorem result_sink:
  assumes "result ''phase'' = Some phase"
    and "format_fields result result_columns = Inr columns"
    and "practice_output_filename \<noteq> test_output_filename"
  shows "(\<exists>w'. append_result_to_csv result practice_filename test_filename participant_info w = Inr w'
          \<and> w' = file_close (if phase = PStr ''practice'' then practice_filename else test_filename)
                   (file_write (if phase = PStr ''practice'' then practice_filename else test_filename)
                      (csv_line participant_info result)
                      (open_append
                         (if phase = PStr ''practice'' then practice_filename else test_filename) w))
          \<and> files w' (if phase = PStr ''practice'' then practice_filename else test_filename)
              = Some (content_of (files w)
                        (if phase = PStr ''practice'' then practice_filename else test_filename)
                      @ csv_line participant_info result)
          \<and> (\<forall>other. other \<noteq> (if phase = PStr ''practice'' then practice_filename else test_filename)
                \<longrightarrow> files w' other = files w other)
          \<and> opened w' = opened w)
      \<and> csv_line participant_info result
          = join_commas ([info_experiment participant_info, info_Subject_ID participant_info,
                          info_cur_date participant_info] @ columns) @ ''\<newline>''
      \<and> ((\<forall>c\<in>set ([info_experiment participant_info, info_Subject_ID participant_info,
                      info_cur_date participant_info] @ columns). CHR 0x0A \<notin> set c)
           \<longrightarrow> length (filter (\<lambda>ch. ch = CHR 0x0A) (csv_line participant_info result)) = 1)
      \<and> (run_ready test_type example_files test_files instruction_texts v
           \<longleftrightarrow> (\<exists>results v'.
                  musical_ear_test test_type example_files test_files instruction_texts
                    practice_output_filename test_output_filename base_image_path
                    participant_info v
                  = Some (Inr (results, v'))))
      \<and> (\<forall>results v'.
            musical_ear_test test_type example_files test_files instruction_texts
              practice_output_filename test_output_filename base_image_path participant_info v
            = Some (Inr (results, v'))
            \<longrightarrow> files v' practice_output_filename
                = (if example_files = [] then files v practice_output_filename
                   else Some (content_of (files v) practice_output_filename
                          @ concat (map (csv_line participant_info)
                                      (take (length example_files) results))))
            \<and> files v' test_output_filename
                = (if test_files = [] then files v test_output_filename
                   else Some (content_of (files v) test_output_filename
                          @ concat (map (csv_line participant_info)
                                      (drop (length example_files) results))))
            \<and> (\<forall>other. other \<noteq> practice_output_filename \<and> other \<noteq> test_output_filename
                  \<longrightarrow> files v' other = files v other)
            \<and> opened v' = opened v)"
proof (intro conjI)
  let ?dest = "if phase = PStr ''practice'' then practice_filename else test_filename"
  let ?info = "[info_experiment participant_info, info_Subject_ID participant_info,
                info_cur_date participant_info]"
  show "\<exists>w'. append_result_to_csv result practice_filename test_filename participant_info w = Inr w'
          \<and> w' = file_close ?dest (file_write ?dest (csv_line participant_info result)
                      (open_append ?dest w))
          \<and> files w' ?dest = Some (content_of (files w) ?dest @ csv_line participant_info result)
          \<and> (\<forall>other. other \<noteq> ?dest \<longrightarrow> files w' other = files w other)
          \<and> opened w' = opened w"
    by (rule exI, intro conjI, rule append_result_to_csv_steps[OF assms(1,2)], rule refl)
       (simp_all only: scoped_write_files scoped_write_opened, simp_all)
  show line: "csv_line participant_info result = join_commas (?info @ columns) @ ''\<newline>''"
    by (simp add: csv_line_def assms(2))
  show "(\<forall>c\<in>set (?info @ columns). CHR 0x0A \<notin> set c)
           \<longrightarrow> length (filter (\<lambda>ch. ch = CHR 0x0A) (csv_line participant_info result)) = 1"
  proof
    assume "\<forall>c\<in>set (?info @ columns). CHR 0x0A \<notin> set c"
    then have "CHR 0x0A \<notin> set (join_commas (?info @ columns))"
      by (rule join_commas_no_newline)
    then have "filter (\<lambda>ch. ch = CHR 0x0A) (join_commas (?info @ columns)) = []"
      unfolding filter_empty_conv by blast
    then show "length (filter (\<lambda>ch. ch = CHR 0x0A) (csv_line participant_info result)) = 1"
      unfolding line by simp
  qed
  show "run_ready test_type example_files test_files instruction_texts v
           \<longleftrightarrow> (\<exists>results v'.
                  musical_ear_test test_type example_files test_files instruction_texts
                    practice_output_filename test_output_filename base_image_path
                    participant_info v
                  = Some (Inr (results, v')))"
    by (rule run_ready_iff)
  show "\<forall>results v'.
            musical_ear_test test_type example_files test_files instruction_texts
              practice_output_filename test_output_filename base_image_path participant_info v
            = Some (Inr (results, v'))
            \<longrightarrow> files v' practice_output_filename
                = (if example_files = [] then files v practice_output_filename
                   else Some (content_of (files v) practice_output_filename
                          @ concat (map (csv_line participant_info)
                                      (take (length example_files) results))))
            \<and> files v' test_output_filename
                = (if test_files = [] then files v test_output_filename
                   else Some (content_of (files v) test_output_filename
                          @ concat (map (csv_line participant_info)
                                      (drop (length example_files) results))))
            \<and> (\<forall>other. other \<noteq> practice_output_filename \<and> other \<noteq> test_output_filename
                  \<longrightarrow> files v' other = files v other)
            \<and> opened v' = opened v"
  proof (rule allI, rule allI, rule impI)
    fix results v'
    assume ret: "musical_ear_test test_type example_files test_files instruction_texts
              practice_output_filename test_output_filename base_image_path participant_info v
            = Some (Inr (results, v'))"
    from run_returned[OF ret]
    have results: "results = map (outcome v test_type ''practice'' None 0 example_files)
                       [0..<length example_files]
                     @ map (outcome v test_type ''test'' (Some 2) (length example_files) test_files)
                         [0..<length test_files]"
      and fs: "files v' = appended_lines
               (appended_lines (files v) practice_output_filename
                 (map (\<lambda>j. csv_line participant_info
                         (outcome v test_type ''practice'' None 0 example_files j))
                    [0..<length example_files]))
               test_output_filename
               (map (\<lambda>j. csv_line participant_info
                       (outcome v test_type ''test'' (Some 2) (length example_files) test_files j))
                  [0..<length test_files])"
      and op: "opened v' = opened v"
      by blast+
    show "files v' practice_output_filename
                = (if example_files = [] then files v practice_output_filename
                   else Some (content_of (files v) practice_output_filename
                          @ concat (map (csv_line participant_info)
                                      (take (length example_files) results))))
            \<and> files v' test_output_filename
                = (if test_files = [] then files v test_output_filename
                   else Some (content_of (files v) test_output_filename
                          @ concat (map (csv_line participant_info)
                                      (drop (length example_files) results))))
            \<and> (\<forall>other. other \<noteq> practice_output_filename \<and> other \<noteq> test_output_filename
                  \<longrightarrow> files v' other = files v other)
            \<and> opened v' = opened v"
      unfolding results
      using assms(3)
      by (simp add: fs op appended_lines_at appended_lines_other content_of_def o_def)
  qed
qed

text \<open>
  In the example run, the line of the fourth trial (no response to an identical pair),
  and the two files after the run.
\<close>

theorem result_sink_witness:
  "\<exists>w' results v'.
     append_result_to_csv (results_of demo_run ! 3) ''practice.csv'' ''test.csv'' demo_info
       demo_world = Inr w'
     \<and> files w' ''test.csv'' = Some (''header\<newline>'' @
          ''musical_ear_test,S01,2023-05-06 10:00,2,rhythm,test,audio/rhythm_test07_identical.wav,NA,yes,99,10:00:00,10:30:48,00:30:48\<newline>'')
     \<and> files w' ''practice.csv'' = Some ''header\<newline>''
     \<and> opened w' = []
     \<and> length (filter (\<lambda>ch. ch = CHR 0x0A) (csv_line demo_info (results_of demo_run ! 3))) = 1
     \<and> demo_run = Some (Inr (results, v'))
     \<and> files v' ''practice.csv'' = Some (''header\<newline>'' @ csv_line demo_info (results ! 0)
          @ csv_line demo_info (results ! 1))
     \<and> files v' ''test.csv'' = Some (''header\<newline>'' @ csv_line demo_info (results ! 2)
          @ csv_line demo_info (results ! 3))
     \<and> opened v' = []"
proof -
  have ne: "''practice.csv'' \<noteq> ''test.csv''" by simp
  note T = result_sink[OF demo_last_row ne, where participant_info = demo_info
      and practice_filename = "''practice.csv''" and test_filename = "''test.csv''"
      and w = demo_world and base_image_path = "''pics''" and test_type = "''rhythm''"
      and example_files = demo_examples and test_files = demo_tests
      and instruction_texts = demo_texts and v = demo_world]
  note T1 = T[THEN conjunct1]
  note T2 = T[THEN conjunct2, THEN conjunct1]
  note T4 = T[THEN conjunct2, THEN conjunct2, THEN conjunct2, THEN conjunct1]
  note T5 = T[THEN conjunct2, THEN conjunct2, THEN conjunct2, THEN conjunct2]
  have sel: "(if PStr ''test'' = PStr ''practice'' then ''practice.csv'' else ''test.csv'')
      = ''test.csv''" by simp
  from T1[unfolded sel] obtain w' where call:
      "append_result_to_csv (results_of demo_run ! 3) ''practice.csv'' ''test.csv'' demo_info
         demo_world = Inr w'"
    and written: "files w' ''test.csv''
         = Some (content_of (files demo_world) ''test.csv''
                 @ csv_line demo_info (results_of demo_run ! 3))"
    and others: "\<forall>other. other \<noteq> ''test.csv'' \<longrightarrow> files w' other = files demo_world other"
    and closed: "opened w' = opened demo_world"
    by blast
  from T2 have line: "csv_line demo_info (results_of demo_run ! 3) =
      ''musical_ear_test,S01,2023-05-06 10:00,2,rhythm,test,audio/rhythm_test07_identical.wav,NA,yes,99,10:00:00,10:30:48,00:30:48\<newline>''"
    by (simp add: demo_info_def)
  have one: "length (filter (\<lambda>ch. ch = CHR 0x0A)
      (csv_line demo_info (results_of demo_run ! 3))) = 1"
    unfolding line by simp
  from T4 demo_ready obtain results v' where run: "demo_run = Some (Inr (results, v'))"
    unfolding demo_run_def by blast
  from T5[rule_format, OF run[unfolded demo_run_def]]
  have pfile: "files v' ''practice.csv''
                = (if demo_examples = [] then files demo_world ''practice.csv''
                   else Some (content_of (files demo_world) ''practice.csv''
                          @ concat (map (csv_line demo_info)
                                      (take (length demo_examples) results))))"
    and tfile: "files v' ''test.csv''
                = (if demo_tests = [] then files demo_world ''test.csv''
                   else Some (content_of (files demo_world) ''test.csv''
                          @ concat (map (csv_line demo_info)
                                      (drop (length demo_examples) results))))"
    and vclosed: "opened v' = opened demo_world"
    by blast+
  have results: "results = results_of demo_run" by (simp add: results_of_def run)
  have four: "results = [results ! 0, results ! 1, results ! 2, results ! 3]"
    unfolding results by (simp add: demo_results)
  have old: "content_of (files demo_world) ''test.csv'' = ''header\<newline>''"
    "content_of (files demo_world) ''practice.csv'' = ''header\<newline>''"
    "opened demo_world = []" "files demo_world ''practice.csv'' = Some ''header\<newline>''"
    by (simp_all add: content_of_def demo_world_def)
  have len: "length demo_examples = 2" "demo_examples \<noteq> []" "demo_tests \<noteq> []"
    by (simp_all add: demo_examples_def demo_tests_def)
  have "take 2 results = [results ! 0, results ! 1]" "drop 2 results = [results ! 2, results ! 3]"
    by (subst four, simp)+
  with pfile tfile have 3: "files v' ''practice.csv'' = Some (''header\<newline>''
          @ csv_line demo_info (results ! 0) @ csv_line demo_info (results ! 1))"
    and 4: "files v' ''test.csv'' = Some (''header\<newline>'' @ csv_line demo_info (results ! 2)
          @ csv_line demo_info (results ! 3))"
    by (simp_all add: len old)
  from vclosed closed old(3) have 5: "opened w' = []" "opened v' = []" by simp_all
  have 1: "files w' ''test.csv'' = Some (''header\<newline>'' @
          ''musical_ear_test,S01,2023-05-06 10:00,2,rhythm,test,audio/rhythm_test07_identical.wav,NA,yes,99,10:00:00,10:30:48,00:30:48\<newline>'')"
    unfolding written old line by (rule refl)
  have 2: "files w' ''practice.csv'' = Some ''header\<newline>''"
    using others[rule_format, of "''practice.csv''"] old(4) by simp
  show ?thesis
    by (rule exI[of _ w'], rule exI[of _ results], rule exI[of _ v'])
       (intro conjI call 1 2 5 one run 3 4)
qed

subsection \<open>C9: the instruction shown after a practice trial\<close>

text \<open>
  C9. A sub-test returns exactly when it is ready to run, and in every run that
  returns, the screen shows, after the first instruction, for each practice file in
  order: the stimulus and the trial screen, the feedback, which says whether the
  response equals the ground truth of the file, and then the instruction text whose key
  is made of the test type and the ground truth of the file. The response enters the
  feedback only: the instruction texts shown during the sub-test are the first
  instruction, the text for each practice file's ground truth, and the second
  instruction, whatever was answered.
\<close>

theorem debrief_by_ground_truth:
  "(run_ready test_type example_files test_files instruction_texts w
      \<longleftrightarrow> (\<exists>results w'.
             musical_ear_test test_type example_files test_files instruction_texts
               practice_output_filename test_output_filename base_image_path participant_info w
             = Some (Inr (results, w'))))
   \<and> (\<forall>results w'.
        musical_ear_test test_type example_files test_files instruction_texts
          practice_output_filename test_output_filename base_image_path participant_info w
        = Some (Inr (results, w'))
        \<longrightarrow> screen w' = screen w
          @ Instructions (the (instruction_texts (test_type @ ''_part1'')))
          # concat (map (\<lambda>j.
                trial_events test_type base_image_path (length example_files) j (example_files ! j)
                @ [Feedback (if the (collect_response None (windows w (plays w + j)))
                                 = correct_answer (example_files ! j)
                             then ''Richtig!'' else ''Falsch!''),
                   Instructions (the (instruction_texts
                     (test_type @ ''_practice_'' @ correct_answer (example_files ! j))))])
              [0..<length example_files])
          @ Instructions (the (instruction_texts (test_type @ ''_part2'')))
          # concat (map (\<lambda>j.
                trial_events test_type base_image_path (length test_files) j (test_files ! j))
              [0..<length test_files])
      \<and> shown_instructions (drop (length (screen w)) (screen w'))
          = the (instruction_texts (test_type @ ''_part1''))
            # map (\<lambda>name. the (instruction_texts (test_type @ ''_practice_'' @ correct_answer name)))
                example_files
            @ [the (instruction_texts (test_type @ ''_part2''))])"
proof (rule conjI)
  show "run_ready test_type example_files test_files instruction_texts w
      \<longleftrightarrow> (\<exists>results w'.
             musical_ear_test test_type example_files test_files instruction_texts
               practice_output_filename test_output_filename base_image_path participant_info w
             = Some (Inr (results, w')))"
    by (rule run_ready_iff)
next
  show "\<forall>results w'.
        musical_ear_test test_type example_files test_files instruction_texts
          practice_output_filename test_output_filename base_image_path participant_info w
        = Some (Inr (results, w'))
        \<longrightarrow> screen w' = screen w
          @ Instructions (the (instruction_texts (test_type @ ''_part1'')))
          # concat (map (\<lambda>j.
                trial_events test_type base_image_path (length example_files) j (example_files ! j)
                @ [Feedback (if the (collect_response None (windows w (plays w + j)))
                                 = correct_answer (example_files ! j)
                             then ''Richtig!'' else ''Falsch!''),
                   Instructions (the (instruction_texts
                     (test_type @ ''_practice_'' @ correct_answer (example_files ! j))))])
              [0..<length example_files])
          @ Instructions (the (instruction_texts (test_type @ ''_part2'')))
          # concat (map (\<lambda>j.
                trial_events test_type base_image_path (length test_files) j (test_files ! j))
              [0..<length test_files])
      \<and> shown_instructions (drop (length (screen w)) (screen w'))
          = the (instruction_texts (test_type @ ''_part1''))
            # map (\<lambda>name. the (instruction_texts (test_type @ ''_practice_'' @ correct_answer name)))
                example_files
            @ [the (instruction_texts (test_type @ ''_part2''))]"
  proof (rule allI, rule allI, rule impI)
    fix results w'
    assume ret: "musical_ear_test test_type example_files test_files instruction_texts
          practice_output_filename test_output_filename base_image_path participant_info w
        = Some (Inr (results, w'))"
    from run_returned[OF ret]
    have scr: "screen w' = screen w @ Instructions (the (instruction_texts (test_type @ ''_part1'')))
               # concat (map (practice_events w test_type instruction_texts base_image_path
                     example_files) [0..<length example_files])
               @ Instructions (the (instruction_texts (test_type @ ''_part2'')))
               # concat (map (\<lambda>j. trial_events test_type base_image_path (length test_files) j
                     (test_files ! j)) [0..<length test_files])"
      by blast
    have pe: "practice_events w test_type instruction_texts base_image_path example_files
      = (\<lambda>j. trial_events test_type base_image_path (length example_files) j (example_files ! j)
                @ [Feedback (if the (collect_response None (windows w (plays w + j)))
                                 = correct_answer (example_files ! j)
                             then ''Richtig!'' else ''Falsch!''),
                   Instructions (the (instruction_texts
                     (test_type @ ''_practice_'' @ correct_answer (example_files ! j))))])"
      by (rule ext) (simp add: practice_events_def)
    have shown: "shown_instructions (drop (length (screen w)) (screen w'))
          = the (instruction_texts (test_type @ ''_part1''))
            # map (\<lambda>name. the (instruction_texts (test_type @ ''_practice_'' @ correct_answer name)))
                example_files
            @ [the (instruction_texts (test_type @ ''_part2''))]"
      unfolding scr pe
      by (simp add: shown_instructions_append shown_instructions_simps shown_instructions_concat
          shown_instructions_trial_events
          map_over_indices[where f = "\<lambda>name. [the (instruction_texts
              (test_type @ ''_practice_'' @ correct_answer name))]", simplified]
          flip: map_concat)
    show "screen w' = screen w
          @ Instructions (the (instruction_texts (test_type @ ''_part1'')))
          # concat (map (\<lambda>j.
                trial_events test_type base_image_path (length example_files) j (example_files ! j)
                @ [Feedback (if the (collect_response None (windows w (plays w + j)))
                                 = correct_answer (example_files ! j)
                             then ''Richtig!'' else ''Falsch!''),
                   Instructions (the (instruction_texts
                     (test_type @ ''_practice_'' @ correct_answer (example_files ! j))))])
              [0..<length example_files])
          @ Instructions (the (instruction_texts (test_type @ ''_part2'')))
          # concat (map (\<lambda>j.
                trial_events test_type base_image_path (length test_files) j (test_files ! j))
              [0..<length test_files])
      \<and> shown_instructions (drop (length (screen w)) (screen w'))
          = the (instruction_texts (test_type @ ''_part1''))
            # map (\<lambda>name. the (instruction_texts (test_type @ ''_practice_'' @ correct_answer name)))
                example_files
            @ [the (instruction_texts (test_type @ ''_part2''))]"
      by (intro conjI, simp only: scr pe, rule shown)
  qed
qed

text \<open>
  In the example run the second practice pair is different and is answered yes: the
  feedback says wrong, and the instruction shown next is the one for different pairs.
\<close>

theorem debrief_by_ground_truth_witness:
  "\<exists>results w'.
     demo_run = Some (Inr (results, w'))
     \<and> shown_instructions (screen w') = [''R1'', ''RY'', ''RN'', ''R2'']
     \<and> screen w' ! 7 = Feedback ''Falsch!''
     \<and> screen w' ! 8 = Instructions ''RN''"
proof -
  note T = debrief_by_ground_truth[of "''rhythm''" demo_examples demo_tests demo_texts
      demo_world "''practice.csv''" "''test.csv''" "''pics''" demo_info]
  from T[THEN conjunct1] demo_ready
  obtain results w' where run: "demo_run = Some (Inr (results, w'))"
    unfolding demo_run_def by blast
  from T[THEN conjunct2, rule_format, OF run[unfolded demo_run_def]]
  have scr: "screen w' = screen demo_world
          @ Instructions (the (demo_texts (''rhythm'' @ ''_part1'')))
          # concat (map (\<lambda>j.
                trial_events ''rhythm'' ''pics'' (length demo_examples) j (demo_examples ! j)
                @ [Feedback (if the (collect_response None
                                       (windows demo_world (plays demo_world + j)))
                                 = correct_answer (demo_examples ! j)
                             then ''Richtig!'' else ''Falsch!''),
                   Instructions (the (demo_texts
                     (''rhythm'' @ ''_practice_'' @ correct_answer (demo_examples ! j))))])
              [0..<length demo_examples])
          @ Instructions (the (demo_texts (''rhythm'' @ ''_part2'')))
          # concat (map (\<lambda>j.
                trial_events ''rhythm'' ''pics'' (length demo_tests) j (demo_tests ! j))
              [0..<length demo_tests])"
    and shown: "shown_instructions (drop (length (screen demo_world)) (screen w'))
          = the (demo_texts (''rhythm'' @ ''_part1''))
            # map (\<lambda>name. the (demo_texts (''rhythm'' @ ''_practice_'' @ correct_answer name)))
                demo_examples
            @ [the (demo_texts (''rhythm'' @ ''_part2''))]"
    by blast+
  have len: "length demo_examples = 2" "length demo_tests = 2"
    by (simp_all add: demo_examples_def demo_tests_def)
  have upt: "[0..<2] = [0, Suc 0]" by (simp add: upt_rec)
  have empty: "screen demo_world = []" "plays demo_world = 0" "windows demo_world = demo_windows"
    by (simp_all add: demo_world_def)
  from shown have 1: "shown_instructions (screen w') = [''R1'', ''RY'', ''RN'', ''R2'']"
    by (simp add: empty demo_examples_def demo_correct_answers demo_texts_def)
  have 2: "screen w' ! 7 = Feedback ''Falsch!''" "screen w' ! 8 = Instructions ''RN''"
    unfolding scr len upt
    by (simp_all add: empty trial_events_def demo_files demo_responses demo_texts_def)
  from run 1 2 show ?thesis by blast
qed

end
